theory Spec2Isabelle
  imports Complex_Main "HOL-Library.Sublist"
begin

section \<open>Audio envelope (computeRms)\<close>

text \<open>
  JavaScript numbers are modelled as \<^typ>\<open>real\<close>; the one place where the source can
  produce NaN (the mean over an empty buffer, \<open>0 / 0\<close>) is a \<open>None\<close> result.

  The analysis node is an external object: the waveform it currently reports is a field
  of the model, and \<open>getFloatTimeDomainData\<close> copies it into the caller's buffer
  (as many samples as fit).
\<close>

record AnalyserNode =
  fftSize :: nat
  smoothingTimeConstant :: real
  timeDomainData :: "real list"

definition getFloatTimeDomainData :: "AnalyserNode \<Rightarrow> real list \<Rightarrow> real list" where
  "getFloatTimeDomainData analyser buffer =
     take (length buffer) (timeDomainData analyser)
       @ drop (length (timeDomainData analyser)) buffer"

text \<open>The \<open>for\<close> loop of computeRms, with \<open>sumSquares\<close> as the accumulator.\<close>

fun sumSquares_loop :: "real list \<Rightarrow> real \<Rightarrow> real" where
  "sumSquares_loop [] sumSquares = sumSquares"
| "sumSquares_loop (v # rest) sumSquares = sumSquares_loop rest (sumSquares + v * v)"

definition rms_of :: "real list \<Rightarrow> real" where
  "rms_of buffer = sqrt (sumSquares_loop buffer 0 / real (length buffer))"

definition scaled :: "real \<Rightarrow> real" where
  "scaled rms = max 0 (min 1 ((rms - 0.01) * 12))"

text \<open>
  computeRms returns the envelope and the buffer as the analyser left it.
\<close>

definition computeRms :: "AnalyserNode \<Rightarrow> real list \<Rightarrow> real option \<times> real list" where
  "computeRms analyser buffer =
     (let buffer' = getFloatTimeDomainData analyser buffer
      in if length buffer' = 0 then (None, buffer')
         else (Some (scaled (rms_of buffer')), buffer'))"

section \<open>Landmarks and skeleton connections\<close>

text \<open>
  A pose landmark carries normalized coordinates. The landmark array is \<open>any[]\<close> in
  the source: an entry may be missing, and an index past the end reads \<open>undefined\<close>;
  both are \<open>None\<close> here.
\<close>

record landmark =
  lm_x :: real
  lm_y :: real

definition lm_at :: "landmark option list \<Rightarrow> nat \<Rightarrow> landmark option" where
  "lm_at lm i = (if i < length lm then lm ! i else None)"

definition LEFT_SHOULDER :: nat where "LEFT_SHOULDER = 11"
definition RIGHT_SHOULDER :: nat where "RIGHT_SHOULDER = 12"
definition LEFT_ELBOW :: nat where "LEFT_ELBOW = 13"
definition RIGHT_ELBOW :: nat where "RIGHT_ELBOW = 14"
definition LEFT_WRIST :: nat where "LEFT_WRIST = 15"
definition RIGHT_WRIST :: nat where "RIGHT_WRIST = 16"
definition LEFT_HIP :: nat where "LEFT_HIP = 23"
definition RIGHT_HIP :: nat where "RIGHT_HIP = 24"
definition LEFT_KNEE :: nat where "LEFT_KNEE = 25"
definition RIGHT_KNEE :: nat where "RIGHT_KNEE = 26"
definition LEFT_ANKLE :: nat where "LEFT_ANKLE = 27"
definition RIGHT_ANKLE :: nat where "RIGHT_ANKLE = 28"

definition SKELETON_CONNECTIONS :: "(nat \<times> nat) list" where
  "SKELETON_CONNECTIONS =
     [(LEFT_SHOULDER, RIGHT_SHOULDER),
      (LEFT_SHOULDER, LEFT_ELBOW),
      (LEFT_ELBOW, LEFT_WRIST),
      (RIGHT_SHOULDER, RIGHT_ELBOW),
      (RIGHT_ELBOW, RIGHT_WRIST),
      (LEFT_HIP, RIGHT_HIP),
      (LEFT_SHOULDER, LEFT_HIP),
      (RIGHT_SHOULDER, RIGHT_HIP),
      (LEFT_HIP, LEFT_KNEE),
      (LEFT_KNEE, LEFT_ANKLE),
      (RIGHT_HIP, RIGHT_KNEE),
      (RIGHT_KNEE, RIGHT_ANKLE)]"

section \<open>The drawing surface\<close>

text \<open>
  The calls made on the 2D context, in the order they are made. The height of a rounded
  rectangle is optional because it is the one argument that can be NaN.
\<close>

datatype draw_op =
    ClearRect real real real real
  | FillStyle string
  | FillRect real real real real
  | LineWidth real
  | StrokeStyle string
  | GlobalAlpha real
  | BeginPath
  | MoveTo real real
  | LineTo real real
  | Stroke
  | Arc real real real real real
  | Fill
  | RoundRect real real real "real option" real
  | Save
  | Restore
  | DrawImage real real real real

record HTMLCanvasElement =
  width :: nat
  height :: nat
  context2d :: bool

datatype MediaStream = MediaStream (getTracks: "nat list")

record HTMLVideoElement =
  srcObject :: "MediaStream option"
  readyState :: nat

section \<open>One frame of the render loop\<close>

definition background :: "HTMLCanvasElement \<Rightarrow> draw_op list" where
  "background canvas =
     [ClearRect 0 0 (real (width canvas)) (real (height canvas)),
      FillStyle ''#0f172a'',
      FillRect 0 0 (real (width canvas)) (real (height canvas))]"

text \<open>The loop over SKELETON_CONNECTIONS; a pair with a missing endpoint is skipped.\<close>

fun skeleton_loop ::
  "HTMLCanvasElement \<Rightarrow> landmark option list \<Rightarrow> (nat \<times> nat) list \<Rightarrow> draw_op list" where
  "skeleton_loop canvas lm [] = []"
| "skeleton_loop canvas lm ((a, b) # rest) =
     (case lm_at lm a of
        None \<Rightarrow> skeleton_loop canvas lm rest
      | Some p1 \<Rightarrow>
          (case lm_at lm b of
             None \<Rightarrow> skeleton_loop canvas lm rest
           | Some p2 \<Rightarrow>
               MoveTo (lm_x p1 * real (width canvas)) (lm_y p1 * real (height canvas))
               # LineTo (lm_x p2 * real (width canvas)) (lm_y p2 * real (height canvas))
               # skeleton_loop canvas lm rest))"

definition skeleton :: "HTMLCanvasElement \<Rightarrow> landmark option list \<Rightarrow> draw_op list" where
  "skeleton canvas lm =
     [LineWidth 6, StrokeStyle ''#38bdf8'', GlobalAlpha 0.9, BeginPath]
       @ skeleton_loop canvas lm SKELETON_CONNECTIONS
       @ [Stroke, GlobalAlpha 1]"

text \<open>
  The mouth-openness value of a frame: the \<open>idle\<close> default unless both the analysis
  node and the sample buffer are there, in which case computeRms (which refills the
  buffer).
\<close>

definition mouthOpen_of ::
  "real \<Rightarrow> AnalyserNode option \<Rightarrow> real list option \<Rightarrow> real option \<times> real list option" where
  "mouthOpen_of idle analyser buf =
     (case analyser of
        None \<Rightarrow> (Some idle, buf)
      | Some a \<Rightarrow>
          (case buf of
             None \<Rightarrow> (Some idle, buf)
           | Some b \<Rightarrow> (fst (computeRms a b), Some (snd (computeRms a b)))))"

definition shoulderDist_of :: "HTMLCanvasElement \<Rightarrow> landmark \<Rightarrow> landmark \<Rightarrow> real" where
  "shoulderDist_of canvas ls rs =
     sqrt (((lm_x ls - lm_x rs) * real (width canvas))\<^sup>2
         + ((lm_y ls - lm_y rs) * real (height canvas))\<^sup>2)"

definition headRadius_of :: "real \<Rightarrow> real" where
  "headRadius_of shoulderDist = max 24 (min 80 (shoulderDist * 0.35))"

text \<open>Head, eyes and mouth placed from the two shoulders.\<close>

definition tracked_face ::
  "HTMLCanvasElement \<Rightarrow> landmark \<Rightarrow> landmark \<Rightarrow> AnalyserNode option \<Rightarrow> real list option
     \<Rightarrow> draw_op list \<times> real list option" where
  "tracked_face canvas ls rs analyser buf =
     (let cx = ((lm_x ls + lm_x rs) / 2) * real (width canvas);
          cy = ((lm_y ls + lm_y rs) / 2) * real (height canvas) - 80;
          shoulderDist = shoulderDist_of canvas ls rs;
          headRadius = headRadius_of shoulderDist;
          eyeOffsetX = headRadius * 0.35;
          eyeOffsetY = headRadius * - 0.1;
          eyeR = max 3 (headRadius * 0.08);
          mouthOpen = fst (mouthOpen_of 0.15 analyser buf);
          mouthWidth = headRadius * 0.9;
          mouthHeight =
            map_option (\<lambda>m. max (headRadius * 0.08) (headRadius * m * 0.6)) mouthOpen
      in ([FillStyle ''#e5e7eb'', BeginPath, Arc cx cy headRadius 0 (pi * 2), Fill,
           FillStyle ''#111827'', BeginPath,
           Arc (cx - eyeOffsetX) (cy + eyeOffsetY) eyeR 0 (pi * 2),
           Arc (cx + eyeOffsetX) (cy + eyeOffsetY) eyeR 0 (pi * 2),
           Fill,
           FillStyle ''#ef4444'', BeginPath,
           RoundRect (cx - mouthWidth / 2) (cy + headRadius * 0.35) mouthWidth mouthHeight 8,
           Fill],
          snd (mouthOpen_of 0.15 analyser buf)))"

text \<open>The fixed face drawn when there are no landmarks.\<close>

definition idle_face ::
  "HTMLCanvasElement \<Rightarrow> AnalyserNode option \<Rightarrow> real list option
     \<Rightarrow> draw_op list \<times> real list option" where
  "idle_face canvas analyser buf =
     (let cx = real (width canvas) / 2;
          cy = real (height canvas) / 2 - 60;
          headRadius = 60;
          mouthOpen = fst (mouthOpen_of 0.12 analyser buf);
          mouthWidth = 52;
          mouthHeight = map_option (\<lambda>m. max 6 (m * 30)) mouthOpen
      in ([FillStyle ''#e5e7eb'', BeginPath, Arc cx cy headRadius 0 (pi * 2), Fill,
           FillStyle ''#111827'', BeginPath,
           Arc (cx - 20) (cy - 6) 6 0 (pi * 2),
           Arc (cx + 20) (cy - 6) 6 0 (pi * 2),
           Fill,
           FillStyle ''#ef4444'', BeginPath,
           RoundRect (cx - mouthWidth / 2) (cy + 26) mouthWidth mouthHeight 6,
           Fill],
          snd (mouthOpen_of 0.12 analyser buf)))"

text \<open>The camera thumbnail; \<open>Math.round\<close> rounds half up.\<close>

definition video_preview :: "HTMLCanvasElement \<Rightarrow> HTMLVideoElement option \<Rightarrow> draw_op list" where
  "video_preview canvas video =
     (case video of
        None \<Rightarrow> []
      | Some v \<Rightarrow>
          if readyState v \<ge> 2 then
            (let previewW = 200;
                 previewH = real_of_int \<lfloor>previewW * (9 / 16) + 1 / 2\<rfloor>
             in [Save, GlobalAlpha 0.7,
                 DrawImage (real (width canvas) - previewW - 14)
                           (real (height canvas) - previewH - 14) previewW previewH,
                 Restore])
          else [])"

text \<open>
  The drawing part of \<open>render\<close>, from the background to the thumbnail: the draw calls
  and the sample buffer afterwards.
\<close>

definition drawFrame ::
  "HTMLCanvasElement \<Rightarrow> landmark option list option \<Rightarrow> AnalyserNode option
     \<Rightarrow> real list option \<Rightarrow> HTMLVideoElement option \<Rightarrow> draw_op list \<times> real list option" where
  "drawFrame canvas landmarks analyser buf video =
     (let body =
        (case landmarks of
           None \<Rightarrow> idle_face canvas analyser buf
         | Some lm \<Rightarrow>
             if length lm \<noteq> 0 then
               (case lm_at lm LEFT_SHOULDER of
                  None \<Rightarrow> (skeleton canvas lm, buf)
                | Some ls \<Rightarrow>
                    (case lm_at lm RIGHT_SHOULDER of
                       None \<Rightarrow> (skeleton canvas lm, buf)
                     | Some rs \<Rightarrow>
                         (skeleton canvas lm @ fst (tracked_face canvas ls rs analyser buf),
                          snd (tracked_face canvas ls rs analyser buf))))
             else idle_face canvas analyser buf)
      in (background canvas @ fst body @ video_preview canvas video, snd body))"

section \<open>Reading a frame back\<close>

text \<open>
  What a list of draw calls shows: the straight segments (a \<open>moveTo\<close> followed by a
  \<open>lineTo\<close>), the circles and the rounded rectangles.
\<close>

fun segments :: "draw_op list \<Rightarrow> ((real \<times> real) \<times> (real \<times> real)) list" where
  "segments (MoveTo x1 y1 # LineTo x2 y2 # ops) = ((x1, y1), (x2, y2)) # segments ops"
| "segments (c # ops) = segments ops"
| "segments [] = []"

fun arc_radii :: "draw_op list \<Rightarrow> real list" where
  "arc_radii [] = []"
| "arc_radii (Arc cx cy r a0 a1 # ops) = r # arc_radii ops"
| "arc_radii (c # ops) = arc_radii ops"

fun roundRect_heights :: "draw_op list \<Rightarrow> real option list" where
  "roundRect_heights [] = []"
| "roundRect_heights (RoundRect rx ry rw rh rr # ops) = rh # roundRect_heights ops"
| "roundRect_heights (c # ops) = roundRect_heights ops"

section \<open>The capture session\<close>

text \<open>
  The component's refs, and the log of the calls it has made on the platform (media
  devices, audio graph, pose detector, frame pump, animation frames, console, canvas),
  oldest first. A call that throws is not logged: it had no effect.
\<close>

datatype Camera = Camera
datatype Pose = Pose
datatype AudioContext = AudioContext

datatype call =
    GetUserMedia MediaStream
  | VideoPlay
  | NewAudioContext
  | CreateMediaStreamSource
  | CreateAnalyser
  | SourceConnect
  | NewPose
  | PoseSetOptions
  | PoseOnResults
  | NewCamera
  | CameraStart
  | Canvas draw_op
  | RequestAnimationFrame nat
  | CancelAnimationFrame nat
  | CameraStop
  | PoseClose
  | TrackStop nat
  | AnalyserDisconnect
  | AudioContextClose
  | ConsoleError

record world =
  canvasRef :: "HTMLCanvasElement option"
  videoRef :: "HTMLVideoElement option"
  cameraRef :: "Camera option"
  poseRef :: "Pose option"
  landmarksRef :: "landmark option list option"
  audioContextRef :: "AudioContext option"
  analyserRef :: "AnalyserNode option"
  audioBufferRef :: "real list option"
  rafRef :: "nat option"
  calls :: "call list"

text \<open>The component after mounting: both elements exist, every other ref is null.\<close>

definition mounted :: "HTMLCanvasElement \<Rightarrow> world" where
  "mounted canvas =
     \<lparr>canvasRef = Some canvas,
      videoRef = Some \<lparr>srcObject = None, readyState = 0\<rparr>,
      cameraRef = None, poseRef = None, landmarksRef = None,
      audioContextRef = None, analyserRef = None, audioBufferRef = None,
      rafRef = None, calls = []\<rparr>"

subsection \<open>Resources held, read from the log\<close>

text \<open>
  What the platform keeps alive until it is released: live media tracks, the audio
  context (with the nodes inside it), the pose detector, the running frame pump and a
  requested animation frame.
\<close>

datatype resource =
    MediaTrack nat
  | AudioCtx
  | PoseDetector
  | FramePump
  | RenderFrame nat

fun acquires :: "call \<Rightarrow> resource list" where
  "acquires (GetUserMedia s) = map MediaTrack (getTracks s)"
| "acquires NewAudioContext = [AudioCtx]"
| "acquires NewPose = [PoseDetector]"
| "acquires CameraStart = [FramePump]"
| "acquires (RequestAnimationFrame n) = [RenderFrame n]"
| "acquires c = []"

fun releases :: "call \<Rightarrow> resource list" where
  "releases (TrackStop t) = [MediaTrack t]"
| "releases AudioContextClose = [AudioCtx]"
| "releases PoseClose = [PoseDetector]"
| "releases CameraStop = [FramePump]"
| "releases (CancelAnimationFrame n) = [RenderFrame n]"
| "releases c = []"

fun held_after :: "resource list \<Rightarrow> call list \<Rightarrow> resource list" where
  "held_after rs [] = rs"
| "held_after rs (c # cs) = held_after (fold remove1 (releases c) (rs @ acquires c)) cs"

definition held :: "call list \<Rightarrow> resource list" where
  "held cs = held_after [] cs"

subsection \<open>Statements that may throw\<close>

text \<open>
  A statement runs on the world and either lets the next statement run, returns from
  the enclosing function, or throws. The refs keep whatever was assigned before a throw.
\<close>

datatype status = Running | Returned | Thrown

type_synonym stmt = "world \<Rightarrow> status \<times> world"

fun run_steps :: "stmt list \<Rightarrow> stmt" where
  "run_steps [] w = (Running, w)"
| "run_steps (f # fs) w =
     (case f w of
        (Running, w') \<Rightarrow> run_steps fs w'
      | (Returned, w') \<Rightarrow> (Returned, w')
      | (Thrown, w') \<Rightarrow> (Thrown, w'))"

definition assign :: "(world \<Rightarrow> world) \<Rightarrow> stmt" where
  "assign f w = (Running, f w)"

definition external :: "bool \<Rightarrow> call \<Rightarrow> stmt" where
  "external throws c w =
     (if throws then (Thrown, w) else (Running, w\<lparr>calls := calls w @ [c]\<rparr>))"

subsection \<open>render\<close>

text \<open>
  One invocation of \<open>render\<close>; \<open>frame\<close> is the handle \<open>requestAnimationFrame\<close>
  returns for the next one.
\<close>

definition render :: "nat \<Rightarrow> world \<Rightarrow> world" where
  "render frame w =
     (case canvasRef w of
        None \<Rightarrow> w
      | Some canvas \<Rightarrow>
          if \<not> context2d canvas then w
          else
            (let out = drawFrame canvas (landmarksRef w) (analyserRef w)
                         (audioBufferRef w) (videoRef w)
             in w\<lparr>audioBufferRef := snd out,
                  rafRef := Some frame,
                  calls := calls w @ map Canvas (fst out) @ [RequestAnimationFrame frame]\<rparr>))"

text \<open>The pose detector's result callback.\<close>

definition onResults :: "landmark option list option \<Rightarrow> world \<Rightarrow> world" where
  "onResults poseLandmarks w = w\<lparr>landmarksRef := poseLandmarks\<rparr>"

subsection \<open>start: the effect with \<open>started = true\<close>\<close>

text \<open>
  What the platform does during one start: the stream \<open>getUserMedia\<close> resolves with,
  which of the calls throw or reject, whether the effect was cleaned up while
  \<open>getUserMedia\<close> was pending, the waveform of the new analysis node and the first
  animation-frame handle.
\<close>

datatype start_step =
    S_getUserMedia
  | S_play
  | S_newAudioContext
  | S_createMediaStreamSource
  | S_createAnalyser
  | S_connect
  | S_newPose
  | S_setOptions
  | S_onResults
  | S_newCamera
  | S_cameraStart

record start_env =
  stream :: MediaStream
  throws :: "start_step \<Rightarrow> bool"
  cancelled :: bool
  waveform :: "real list"
  frame :: nat

definition attach_video :: "start_env \<Rightarrow> stmt" where
  "attach_video env w =
     (case videoRef w of
        None \<Rightarrow> (Running, w)
      | Some v \<Rightarrow>
          run_steps
            [assign (\<lambda>w. w\<lparr>videoRef := Some (v\<lparr>srcObject := Some (stream env)\<rparr>)\<rparr>),
             external (throws env S_play) VideoPlay] w)"

definition audio_setup :: "start_env \<Rightarrow> stmt" where
  "audio_setup env =
     run_steps
       [external (throws env S_newAudioContext) NewAudioContext,
        assign (\<lambda>w. w\<lparr>audioContextRef := Some AudioContext\<rparr>),
        external (throws env S_createMediaStreamSource) CreateMediaStreamSource,
        external (throws env S_createAnalyser) CreateAnalyser,
        external (throws env S_connect) SourceConnect,
        assign (\<lambda>w. w\<lparr>analyserRef :=
                  Some \<lparr>fftSize = 1024, smoothingTimeConstant = 0.6,
                        timeDomainData = waveform env\<rparr>\<rparr>),
        assign (\<lambda>w. w\<lparr>audioBufferRef := Some (replicate 1024 0)\<rparr>)]"

definition pose_setup :: "start_env \<Rightarrow> stmt" where
  "pose_setup env =
     run_steps
       [external (throws env S_newPose) NewPose,
        external (throws env S_setOptions) PoseSetOptions,
        external (throws env S_onResults) PoseOnResults,
        assign (\<lambda>w. w\<lparr>poseRef := Some Pose\<rparr>)]"

definition camera_pump :: "start_env \<Rightarrow> stmt" where
  "camera_pump env w =
     (case videoRef w of
        None \<Rightarrow> (Running, w)
      | Some v \<Rightarrow>
          run_steps
            [external (throws env S_newCamera) NewCamera,
             assign (\<lambda>w. w\<lparr>cameraRef := Some Camera\<rparr>),
             external (throws env S_cameraStart) CameraStart] w)"

definition start_body :: "start_env \<Rightarrow> stmt" where
  "start_body env =
     run_steps
       [external (throws env S_getUserMedia) (GetUserMedia (stream env)),
        (\<lambda>w. if cancelled env then (Returned, w) else (Running, w)),
        attach_video env,
        audio_setup env,
        pose_setup env,
        camera_pump env,
        assign (render (frame env))]"

text \<open>The \<open>try\<close>/\<open>catch\<close> around the body: a thrown error is logged, nothing else.\<close>

definition start :: "start_env \<Rightarrow> world \<Rightarrow> world" where
  "start env w =
     (case start_body env w of
        (Thrown, w') \<Rightarrow> w'\<lparr>calls := calls w' @ [ConsoleError]\<rparr>
      | (Running, w') \<Rightarrow> w'
      | (Returned, w') \<Rightarrow> w')"

subsection \<open>stop: the effect with \<open>started = false\<close>\<close>

datatype stop_step =
    R_cancelAnimationFrame
  | R_cameraStop
  | R_poseClose
  | R_trackStop nat
  | R_analyserDisconnect
  | R_audioContextClose

text \<open>\<open>getTracks().forEach((t) => t.stop())\<close>\<close>

fun stop_tracks :: "(stop_step \<Rightarrow> bool) \<Rightarrow> nat list \<Rightarrow> stmt" where
  "stop_tracks thr [] w = (Running, w)"
| "stop_tracks thr (t # ts) w =
     (case external (thr (R_trackStop t)) (TrackStop t) w of
        (Running, w') \<Rightarrow> stop_tracks thr ts w'
      | (Returned, w') \<Rightarrow> (Returned, w')
      | (Thrown, w') \<Rightarrow> (Thrown, w'))"

definition release_video :: "(stop_step \<Rightarrow> bool) \<Rightarrow> stmt" where
  "release_video thr w =
     (case videoRef w of
        None \<Rightarrow> (Running, w)
      | Some v \<Rightarrow>
          (case srcObject v of
             None \<Rightarrow> (Running, w)
           | Some s \<Rightarrow>
               run_steps
                 [stop_tracks thr (getTracks s),
                  assign (\<lambda>w. w\<lparr>videoRef := Some (v\<lparr>srcObject := None\<rparr>)\<rparr>)] w))"

text \<open>
  The statements of the stop branch, group by group. \<open>thr\<close> says which release calls
  throw.
\<close>

definition cancel_frame :: "(stop_step \<Rightarrow> bool) \<Rightarrow> stmt" where
  "cancel_frame thr =
     run_steps
       [(\<lambda>w. case rafRef w of
                None \<Rightarrow> (Running, w)
              | Some n \<Rightarrow>
                  if n \<noteq> 0
                  then external (thr R_cancelAnimationFrame) (CancelAnimationFrame n) w
                  else (Running, w)),
        assign (\<lambda>w. w\<lparr>rafRef := None\<rparr>)]"

definition stop_camera :: "(stop_step \<Rightarrow> bool) \<Rightarrow> stmt" where
  "stop_camera thr =
     run_steps
       [(\<lambda>w. case cameraRef w of
                None \<Rightarrow> (Running, w)
              | Some c \<Rightarrow> external (thr R_cameraStop) CameraStop w),
        assign (\<lambda>w. w\<lparr>cameraRef := None\<rparr>)]"

definition close_pose :: "(stop_step \<Rightarrow> bool) \<Rightarrow> stmt" where
  "close_pose thr =
     run_steps
       [(\<lambda>w. case poseRef w of
                None \<Rightarrow> (Running, w)
              | Some p \<Rightarrow> external (thr R_poseClose) PoseClose w),
        assign (\<lambda>w. w\<lparr>poseRef := None\<rparr>)]"

definition release_audio :: "(stop_step \<Rightarrow> bool) \<Rightarrow> stmt" where
  "release_audio thr =
     run_steps
       [(\<lambda>w. case analyserRef w of
                None \<Rightarrow> (Running, w)
              | Some a \<Rightarrow> external (thr R_analyserDisconnect) AnalyserDisconnect w),
        assign (\<lambda>w. w\<lparr>analyserRef := None\<rparr>),
        (\<lambda>w. case audioContextRef w of
                None \<Rightarrow> (Running, w)
              | Some ac \<Rightarrow> external (thr R_audioContextClose) AudioContextClose w),
        assign (\<lambda>w. w\<lparr>audioContextRef := None\<rparr>),
        assign (\<lambda>w. w\<lparr>audioBufferRef := None\<rparr>)]"

text \<open>
  The stop branch; the result is \<open>Thrown\<close> when the effect ended in an exception.
\<close>

definition stop :: "(stop_step \<Rightarrow> bool) \<Rightarrow> stmt" where
  "stop thr =
     run_steps
       [cancel_frame thr, stop_camera thr, close_pose thr, release_video thr,
        release_audio thr]"

text \<open>
  The release calls that are due in a world: one for each resource a ref points to,
  group by group and in the order of the stop branch.
\<close>

definition frame_due :: "world \<Rightarrow> call list" where
  "frame_due w =
     (case rafRef w of
        None \<Rightarrow> []
      | Some n \<Rightarrow> if n \<noteq> 0 then [CancelAnimationFrame n] else [])"

definition camera_due :: "world \<Rightarrow> call list" where
  "camera_due w = (case cameraRef w of None \<Rightarrow> [] | Some c \<Rightarrow> [CameraStop])"

definition pose_due :: "world \<Rightarrow> call list" where
  "pose_due w = (case poseRef w of None \<Rightarrow> [] | Some p \<Rightarrow> [PoseClose])"

definition video_due :: "world \<Rightarrow> call list" where
  "video_due w =
     (case videoRef w of
        None \<Rightarrow> []
      | Some v \<Rightarrow> (case srcObject v of None \<Rightarrow> [] | Some s \<Rightarrow> map TrackStop (getTracks s)))"

definition audio_due :: "world \<Rightarrow> call list" where
  "audio_due w =
     (case analyserRef w of None \<Rightarrow> [] | Some a \<Rightarrow> [AnalyserDisconnect])
     @ (case audioContextRef w of None \<Rightarrow> [] | Some ac \<Rightarrow> [AudioContextClose])"

definition releases_due :: "world \<Rightarrow> call list" where
  "releases_due w = frame_due w @ camera_due w @ pose_due w @ video_due w @ audio_due w"

text \<open>
  Whether a release call, as it appears in the log, is one that \<open>thr\<close> makes throw.
\<close>

fun release_throws :: "(stop_step \<Rightarrow> bool) \<Rightarrow> call \<Rightarrow> bool" where
  "release_throws thr (CancelAnimationFrame n) = thr R_cancelAnimationFrame"
| "release_throws thr CameraStop = thr R_cameraStop"
| "release_throws thr PoseClose = thr R_poseClose"
| "release_throws thr (TrackStop t) = thr (R_trackStop t)"
| "release_throws thr AnalyserDisconnect = thr R_analyserDisconnect"
| "release_throws thr AudioContextClose = thr R_audioContextClose"
| "release_throws thr c = False"

section \<open>Sample inputs\<close>

text \<open>The canvas as the component sizes it, and a pose with only the two shoulders.\<close>

definition canvas0 :: HTMLCanvasElement where
  "canvas0 = \<lparr>width = 1280, height = 720, context2d = True\<rparr>"

definition pose_of :: "landmark \<Rightarrow> landmark \<Rightarrow> landmark option list" where
  "pose_of ls rs = replicate 11 None @ [Some ls, Some rs]"

text \<open>
  A start in which every platform call succeeds, starts in which one call throws, and
  the release calls of stop: none throwing, the frame pump's, or the audio context's.
\<close>

definition env0 :: start_env where
  "env0 = \<lparr>stream = MediaStream [0, 1], throws = (\<lambda>s. False), cancelled = False,
            waveform = replicate 1024 0, frame = 1\<rparr>"

definition env_pose_fails :: start_env where
  "env_pose_fails = env0\<lparr>throws := (\<lambda>s. s = S_newPose)\<rparr>"

definition env_media_denied :: start_env where
  "env_media_denied = env0\<lparr>throws := (\<lambda>s. s = S_getUserMedia)\<rparr>"

definition env_analyser_fails :: start_env where
  "env_analyser_fails = env0\<lparr>throws := (\<lambda>s. s = S_createAnalyser)\<rparr>"

definition no_throw :: "stop_step \<Rightarrow> bool" where
  "no_throw s = False"

definition camera_stop_throws :: "stop_step \<Rightarrow> bool" where
  "camera_stop_throws s = (s = R_cameraStop)"

definition context_close_throws :: "stop_step \<Rightarrow> bool" where
  "context_close_throws s = (s = R_audioContextClose)"

section \<open>Properties of the envelope\<close>

lemma length_getFloatTimeDomainData:
  "length (getFloatTimeDomainData analyser buffer) = length buffer"
  by (simp add: getFloatTimeDomainData_def)

lemma scaled_range: "0 \<le> scaled r \<and> scaled r \<le> 1"
  by (simp add: scaled_def)

lemma scaled_zero_iff: "scaled r = 0 \<longleftrightarrow> r \<le> 0.01"
  by (auto simp: scaled_def max_def min_def)

lemma scaled_one_iff: "scaled r = 1 \<longleftrightarrow> 0.01 + 1 / 12 \<le> r"
  by (auto simp: scaled_def max_def min_def)

lemma getFloatTimeDomainData_Nil_iff:
  "getFloatTimeDomainData analyser buffer = [] \<longleftrightarrow> buffer = []"
  using length_getFloatTimeDomainData [of analyser buffer]
  by (metis length_0_conv)

lemma computeRms_nonempty:
  "buffer \<noteq> [] \<Longrightarrow>
   fst (computeRms analyser buffer)
     = Some (scaled (rms_of (getFloatTimeDomainData analyser buffer)))"
  by (simp add: computeRms_def Let_def getFloatTimeDomainData_Nil_iff)

lemma computeRms_empty: "fst (computeRms analyser []) = None"
  by (simp add: computeRms_def Let_def getFloatTimeDomainData_Nil_iff)

lemma rms_of_single: "rms_of [v] = \<bar>v\<bar>"
  by (simp add: rms_of_def)

section \<open>Claims about the envelope\<close>

text \<open>
  C2 (as stated): every RMS input \<open>r \<le> 0.01/12 + 0.01\<close> gives envelope exactly 0.
  This fails: a buffer whose RMS is 0.0105 lies below that threshold and computeRms
  returns 0.006.
\<close>

theorem envelope_floor_threshold_counterexample:
  "(0.0105::real) \<le> 0.01 / 12 + 0.01 \<and>
   fst (computeRms \<lparr>fftSize = 1, smoothingTimeConstant = 0.6, timeDomainData = [0.0105]\<rparr> [0])
     = Some 0.006"
  by (simp add: computeRms_def getFloatTimeDomainData_def rms_of_single scaled_def)

text \<open>
  C2 (amended): the floor clamp of computeRms ends at RMS 0.01. On a non-empty buffer
  the envelope is exactly 0 for every RMS \<open>r \<le> 0.01\<close>, and for no larger RMS.
\<close>

theorem envelope_floor:
  assumes "buffer \<noteq> []"
  shows "fst (computeRms analyser buffer) = Some 0
           \<longleftrightarrow> rms_of (getFloatTimeDomainData analyser buffer) \<le> 0.01"
  using assms by (simp add: computeRms_nonempty scaled_zero_iff)

theorem envelope_floor_witness:
  "fst (computeRms \<lparr>fftSize = 1, smoothingTimeConstant = 0.6, timeDomainData = [0.005]\<rparr> [0])
     = Some 0"
proof -
  have ne: "[0::real] \<noteq> []" by simp
  have "rms_of (getFloatTimeDomainData
          \<lparr>fftSize = 1, smoothingTimeConstant = 0.6, timeDomainData = [0.005]\<rparr> [0]) \<le> 0.01"
    by (simp add: getFloatTimeDomainData_def rms_of_single)
  then show ?thesis using envelope_floor [OF ne] by simp
qed

text \<open>
  C8: on a non-empty buffer, every RMS \<open>r \<ge> 0.01 + 1/12\<close> gives envelope exactly 1;
  in particular RMS 0.1 is scaled to \<open>clamp (1.08, 0, 1) = 1\<close>.
\<close>

theorem envelope_ceiling:
  assumes "buffer \<noteq> []"
    and "0.01 + 1 / 12 \<le> rms_of (getFloatTimeDomainData analyser buffer)"
  shows "fst (computeRms analyser buffer) = Some 1
         \<and> (0.1 - 0.01) * 12 = (1.08::real) \<and> scaled 0.1 = 1"
  using assms by (simp add: computeRms_nonempty scaled_one_iff)

theorem envelope_ceiling_witness:
  "fst (computeRms \<lparr>fftSize = 1, smoothingTimeConstant = 0.6, timeDomainData = [0.1]\<rparr> [0])
     = Some 1"
proof -
  have ne: "[0::real] \<noteq> []" by simp
  have "0.01 + 1 / 12 \<le> rms_of (getFloatTimeDomainData
          \<lparr>fftSize = 1, smoothingTimeConstant = 0.6, timeDomainData = [0.1]\<rparr> [0])"
    by (simp add: getFloatTimeDomainData_def rms_of_single)
  then show ?thesis using envelope_ceiling [OF ne] by simp
qed

section \<open>Reading frames: helper lemmas\<close>

lemmas LM_defs =
  LEFT_SHOULDER_def RIGHT_SHOULDER_def LEFT_ELBOW_def RIGHT_ELBOW_def
  LEFT_WRIST_def RIGHT_WRIST_def LEFT_HIP_def RIGHT_HIP_def
  LEFT_KNEE_def RIGHT_KNEE_def LEFT_ANKLE_def RIGHT_ANKLE_def

lemma arc_radii_append: "arc_radii (xs @ ys) = arc_radii xs @ arc_radii ys"
  by (induction xs rule: arc_radii.induct) simp_all

lemma roundRect_heights_append:
  "roundRect_heights (xs @ ys) = roundRect_heights xs @ roundRect_heights ys"
  by (induction xs rule: roundRect_heights.induct) simp_all

lemma arc_radii_skeleton_loop: "arc_radii (skeleton_loop canvas lm conns) = []"
  by (induction conns) (auto split: option.splits)

lemma roundRect_heights_skeleton_loop: "roundRect_heights (skeleton_loop canvas lm conns) = []"
  by (induction conns) (auto split: option.splits)

lemma arc_radii_skeleton: "arc_radii (skeleton canvas lm) = []"
  by (simp add: skeleton_def arc_radii_append arc_radii_skeleton_loop)

lemma roundRect_heights_skeleton: "roundRect_heights (skeleton canvas lm) = []"
  by (simp add: skeleton_def roundRect_heights_append roundRect_heights_skeleton_loop)

lemma arc_radii_background: "arc_radii (background canvas) = []"
  by (simp add: background_def)

lemma roundRect_heights_background: "roundRect_heights (background canvas) = []"
  by (simp add: background_def)

lemma arc_radii_video_preview: "arc_radii (video_preview canvas video) = []"
  by (simp add: video_preview_def Let_def split: option.splits)

lemma roundRect_heights_video_preview: "roundRect_heights (video_preview canvas video) = []"
  by (simp add: video_preview_def Let_def split: option.splits)

lemma drawFrame_tracked:
  assumes "lm \<noteq> []"
    and "lm_at lm LEFT_SHOULDER = Some ls"
    and "lm_at lm RIGHT_SHOULDER = Some rs"
  shows "fst (drawFrame canvas (Some lm) analyser buf video)
           = background canvas @ skeleton canvas lm
               @ fst (tracked_face canvas ls rs analyser buf) @ video_preview canvas video"
  using assms by (simp add: drawFrame_def Let_def)

lemma drawFrame_idle:
  assumes "landmarks = None \<or> landmarks = Some []"
  shows "fst (drawFrame canvas landmarks analyser buf video)
           = background canvas @ fst (idle_face canvas analyser buf) @ video_preview canvas video"
  using assms by (auto simp: drawFrame_def Let_def)

lemma drawFrame_skeleton_only:
  assumes "lm \<noteq> []"
    and "lm_at lm LEFT_SHOULDER = None \<or> lm_at lm RIGHT_SHOULDER = None"
  shows "drawFrame canvas (Some lm) analyser buf video
           = (background canvas @ skeleton canvas lm @ video_preview canvas video, buf)"
  using assms by (auto simp: drawFrame_def Let_def split: option.splits)

lemma arc_radii_tracked_face:
  "arc_radii (fst (tracked_face canvas ls rs analyser buf))
     = [headRadius_of (shoulderDist_of canvas ls rs),
        max 3 (headRadius_of (shoulderDist_of canvas ls rs) * 0.08),
        max 3 (headRadius_of (shoulderDist_of canvas ls rs) * 0.08)]"
  by (simp add: tracked_face_def Let_def)

lemma roundRect_heights_tracked_face:
  "roundRect_heights (fst (tracked_face canvas ls rs analyser buf))
     = [map_option (\<lambda>m. max (headRadius_of (shoulderDist_of canvas ls rs) * 0.08)
                          (headRadius_of (shoulderDist_of canvas ls rs) * m * 0.6))
          (fst (mouthOpen_of 0.15 analyser buf))]"
  by (simp add: tracked_face_def Let_def)

lemma roundRect_heights_idle_face:
  "roundRect_heights (fst (idle_face canvas analyser buf))
     = [map_option (\<lambda>m. max 6 (m * 30)) (fst (mouthOpen_of 0.12 analyser buf))]"
  by (simp add: idle_face_def Let_def)

lemma arc_radii_idle_face:
  "arc_radii (fst (idle_face canvas analyser buf)) = [60, 6, 6]"
  by (simp add: idle_face_def Let_def)

lemma mouthOpen_of_no_audio:
  "analyser = None \<or> buf = None \<Longrightarrow> fst (mouthOpen_of idle analyser buf) = Some idle"
  by (auto simp: mouthOpen_of_def split: option.splits)

lemma mouthOpen_of_audio:
  "fst (mouthOpen_of idle (Some a) (Some b)) = fst (computeRms a b)"
  by (simp add: mouthOpen_of_def)

lemma shoulderDist_of_coincident:
  "lm_x ls = lm_x rs \<Longrightarrow> lm_y ls = lm_y rs \<Longrightarrow> shoulderDist_of canvas ls rs = 0"
  by (simp add: shoulderDist_of_def)

lemma shoulderDist_of_horizontal:
  "lm_y ls = lm_y rs \<Longrightarrow>
   shoulderDist_of canvas ls rs = \<bar>lm_x ls - lm_x rs\<bar> * real (width canvas)"
  by (simp add: shoulderDist_of_def abs_mult)

lemma pose_of_shoulders:
  "pose_of ls rs \<noteq> []"
  "lm_at (pose_of ls rs) LEFT_SHOULDER = Some ls"
  "lm_at (pose_of ls rs) RIGHT_SHOULDER = Some rs"
  by (simp_all add: pose_of_def lm_at_def LM_defs nth_append)

lemma segments_skeleton_loop:
  "segments (skeleton_loop canvas lm conns @ rest)
     = map (\<lambda>(a, b).
              ((lm_x (the (lm_at lm a)) * real (width canvas),
                lm_y (the (lm_at lm a)) * real (height canvas)),
               (lm_x (the (lm_at lm b)) * real (width canvas),
                lm_y (the (lm_at lm b)) * real (height canvas))))
         (filter (\<lambda>(a, b). lm_at lm a \<noteq> None \<and> lm_at lm b \<noteq> None) conns)
       @ segments rest"
  by (induction conns) (auto split: option.splits)

lemma segments_after_skeleton:
  "segments (video_preview canvas video) = []"
  "segments (fst (tracked_face canvas ls rs analyser buf) @ video_preview canvas video) = []"
  by (simp_all add: video_preview_def tracked_face_def Let_def split: option.splits)

lemma segments_idle:
  "segments (background canvas @ fst (idle_face canvas analyser buf)
       @ video_preview canvas video) = []"
  by (simp add: background_def video_preview_def idle_face_def Let_def split: option.splits)

section \<open>Claims about the compositor\<close>

text \<open>
  C5 (as stated): with no audio source the envelope that sizes the mouth is 0. This
  fails: with neither analysis node nor sample buffer, and a tracked face of head radius
  24, the mouth is drawn \<open>24 * 0.15 * 0.6\<close> high, not the \<open>24 * 0.08\<close> that an
  envelope of 0 would give.
\<close>

theorem mouth_without_audio_counterexample:
  "roundRect_heights (fst (drawFrame canvas0
        (Some (pose_of \<lparr>lm_x = 0.5, lm_y = 0.5\<rparr> \<lparr>lm_x = 0.5, lm_y = 0.5\<rparr>))
        None None None)) = [Some (24 * 0.15 * 0.6)]
   \<and> roundRect_heights (fst (drawFrame canvas0
        (Some (pose_of \<lparr>lm_x = 0.5, lm_y = 0.5\<rparr> \<lparr>lm_x = 0.5, lm_y = 0.5\<rparr>))
        None None None)) \<noteq> [Some (max (24 * 0.08) (24 * 0 * 0.6))]
   \<and> fst (mouthOpen_of 0.15 None None) \<noteq> Some 0"
  by (simp add: drawFrame_tracked [OF pose_of_shoulders] roundRect_heights_append
        roundRect_heights_background roundRect_heights_skeleton
        roundRect_heights_tracked_face roundRect_heights_video_preview
        headRadius_of_def shoulderDist_of_coincident mouthOpen_of_def)

text \<open>
  C5 (amended): when the analysis node or the sample buffer is missing, the envelope that
  sizes the mouth is the idle default (0.15 for the tracked face, 0.12 for the idle face);
  when both are there it is the value computeRms returns.
\<close>

theorem mouth_envelope_source:
  assumes "lm \<noteq> []"
    and "lm_at lm LEFT_SHOULDER = Some ls"
    and "lm_at lm RIGHT_SHOULDER = Some rs"
  shows "(analyser = None \<or> buf = None \<longrightarrow>
            roundRect_heights (fst (drawFrame canvas (Some lm) analyser buf video))
              = [Some (max (headRadius_of (shoulderDist_of canvas ls rs) * 0.08)
                           (headRadius_of (shoulderDist_of canvas ls rs) * 0.15 * 0.6))]
            \<and> roundRect_heights (fst (drawFrame canvas None analyser buf video))
              = [Some (max 6 (0.12 * 30))])
         \<and> (analyser = Some a \<and> buf = Some b \<longrightarrow>
            roundRect_heights (fst (drawFrame canvas (Some lm) analyser buf video))
              = [map_option
                   (\<lambda>m. max (headRadius_of (shoulderDist_of canvas ls rs) * 0.08)
                             (headRadius_of (shoulderDist_of canvas ls rs) * m * 0.6))
                   (fst (computeRms a b))]
            \<and> roundRect_heights (fst (drawFrame canvas None analyser buf video))
              = [map_option (\<lambda>m. max 6 (m * 30)) (fst (computeRms a b))])"
proof -
  have tracked: "roundRect_heights (fst (drawFrame canvas (Some lm) analyser buf video))
           = [map_option (\<lambda>m. max (headRadius_of (shoulderDist_of canvas ls rs) * 0.08)
                          (headRadius_of (shoulderDist_of canvas ls rs) * m * 0.6))
          (fst (mouthOpen_of 0.15 analyser buf))]"
    by (simp add: drawFrame_tracked [OF assms] roundRect_heights_append
          roundRect_heights_background roundRect_heights_skeleton
          roundRect_heights_tracked_face roundRect_heights_video_preview)
  have idle: "roundRect_heights (fst (drawFrame canvas None analyser buf video))
             = [map_option (\<lambda>m. max 6 (m * 30)) (fst (mouthOpen_of 0.12 analyser buf))]"
    by (simp add: drawFrame_idle roundRect_heights_append
          roundRect_heights_background roundRect_heights_idle_face
          roundRect_heights_video_preview)
  show ?thesis
    unfolding tracked idle
    using mouthOpen_of_no_audio [of analyser buf]
    by (auto simp: mouthOpen_of_audio)
qed

theorem mouth_envelope_source_witness:
  "roundRect_heights (fst (drawFrame canvas0
        (Some (pose_of \<lparr>lm_x = 0.5, lm_y = 0.5\<rparr> \<lparr>lm_x = 0.5, lm_y = 0.5\<rparr>))
        None None None)) = [Some 2.16]
   \<and> roundRect_heights (fst (drawFrame canvas0
        (Some (pose_of \<lparr>lm_x = 0.5, lm_y = 0.5\<rparr> \<lparr>lm_x = 0.5, lm_y = 0.5\<rparr>))
        (Some \<lparr>fftSize = 1, smoothingTimeConstant = 0.6, timeDomainData = [0.06]\<rparr>)
        (Some [0]) None)) = [Some 8.64]"
proof -
  have rms: "fst (computeRms \<lparr>fftSize = 1, smoothingTimeConstant = 0.6, timeDomainData = [0.06]\<rparr> [0])
          = Some 0.6"
    by (simp add: computeRms_def getFloatTimeDomainData_def rms_of_single scaled_def)
  have r: "headRadius_of (shoulderDist_of canvas0 \<lparr>lm_x = 0.5, lm_y = 0.5\<rparr> \<lparr>lm_x = 0.5, lm_y = 0.5\<rparr>) = 24"
    by (simp add: headRadius_of_def shoulderDist_of_coincident)
  show ?thesis
    using mouth_envelope_source [where lm = "pose_of \<lparr>lm_x = 0.5, lm_y = 0.5\<rparr> \<lparr>lm_x = 0.5, lm_y = 0.5\<rparr>"
            and ls = "\<lparr>lm_x = 0.5, lm_y = 0.5\<rparr>" and rs = "\<lparr>lm_x = 0.5, lm_y = 0.5\<rparr>"
            and canvas = canvas0 and analyser = None and buf = None and video = None,
            OF pose_of_shoulders]
          mouth_envelope_source [where lm = "pose_of \<lparr>lm_x = 0.5, lm_y = 0.5\<rparr> \<lparr>lm_x = 0.5, lm_y = 0.5\<rparr>"
            and ls = "\<lparr>lm_x = 0.5, lm_y = 0.5\<rparr>" and rs = "\<lparr>lm_x = 0.5, lm_y = 0.5\<rparr>"
            and canvas = canvas0
            and analyser = "Some \<lparr>fftSize = 1, smoothingTimeConstant = 0.6, timeDomainData = [0.06]\<rparr>"
            and buf = "Some [0]" and video = None
            and a = "\<lparr>fftSize = 1, smoothingTimeConstant = 0.6, timeDomainData = [0.06]\<rparr>"
            and b = "[0]",
            OF pose_of_shoulders]
          rms r
    by simp
qed

text \<open>
  C6: with both shoulders found, the head is drawn with radius shoulder distance times
  0.35, clamped to \<open>[24, 80]\<close>: coincident shoulders give 24, shoulders at least
  \<open>80 / 0.35\<close> pixels apart give 80, and a distance of 200 pixels gives 70.
\<close>

theorem head_radius_clamped:
  assumes "lm \<noteq> []"
    and "lm_at lm LEFT_SHOULDER = Some ls"
    and "lm_at lm RIGHT_SHOULDER = Some rs"
  shows "hd (arc_radii (fst (drawFrame canvas (Some lm) analyser buf video)))
           = max 24 (min 80 (shoulderDist_of canvas ls rs * 0.35))
         \<and> 24 \<le> hd (arc_radii (fst (drawFrame canvas (Some lm) analyser buf video)))
         \<and> hd (arc_radii (fst (drawFrame canvas (Some lm) analyser buf video))) \<le> 80
         \<and> (lm_x ls = lm_x rs \<and> lm_y ls = lm_y rs \<longrightarrow>
              hd (arc_radii (fst (drawFrame canvas (Some lm) analyser buf video))) = 24)
         \<and> (80 / 0.35 \<le> shoulderDist_of canvas ls rs \<longrightarrow>
              hd (arc_radii (fst (drawFrame canvas (Some lm) analyser buf video))) = 80)
         \<and> (shoulderDist_of canvas ls rs = 200 \<longrightarrow>
              hd (arc_radii (fst (drawFrame canvas (Some lm) analyser buf video))) = 70)"
proof -
  have hd_eq: "hd (arc_radii (fst (drawFrame canvas (Some lm) analyser buf video)))
           = headRadius_of (shoulderDist_of canvas ls rs)"
    by (simp add: drawFrame_tracked [OF assms] arc_radii_append arc_radii_background
          arc_radii_skeleton arc_radii_tracked_face)
  show ?thesis
    unfolding hd_eq
    by (auto simp: headRadius_of_def shoulderDist_of_coincident)
qed

theorem head_radius_clamped_witness:
  "hd (arc_radii (fst (drawFrame canvas0
        (Some (pose_of \<lparr>lm_x = 0.5, lm_y = 0.5\<rparr> \<lparr>lm_x = 0.34375, lm_y = 0.5\<rparr>))
        None None None))) = 70
   \<and> hd (arc_radii (fst (drawFrame canvas0
        (Some (pose_of \<lparr>lm_x = 0.5, lm_y = 0.5\<rparr> \<lparr>lm_x = 0.5, lm_y = 0.5\<rparr>))
        None None None))) = 24
   \<and> hd (arc_radii (fst (drawFrame canvas0
        (Some (pose_of \<lparr>lm_x = 1, lm_y = 0.5\<rparr> \<lparr>lm_x = 0, lm_y = 0.5\<rparr>))
        None None None))) = 80"
proof -
  have d1: "shoulderDist_of canvas0 \<lparr>lm_x = 0.5, lm_y = 0.5\<rparr> \<lparr>lm_x = 0.34375, lm_y = 0.5\<rparr> = 200"
    by (simp add: shoulderDist_of_horizontal canvas0_def)
  have d3: "80 / 0.35 \<le> shoulderDist_of canvas0 \<lparr>lm_x = 1, lm_y = 0.5\<rparr> \<lparr>lm_x = 0, lm_y = 0.5\<rparr>"
    by (simp add: shoulderDist_of_horizontal canvas0_def)
  show ?thesis
    using head_radius_clamped [where lm = "pose_of (\<lparr>lm_x = 0.5, lm_y = 0.5\<rparr>) (\<lparr>lm_x = 0.34375, lm_y = 0.5\<rparr>)" and ls = "\<lparr>lm_x = 0.5, lm_y = 0.5\<rparr>"
            and rs = "\<lparr>lm_x = 0.34375, lm_y = 0.5\<rparr>" and canvas = canvas0 and analyser = None and buf = None
            and video = None, OF pose_of_shoulders]
          head_radius_clamped [where lm = "pose_of (\<lparr>lm_x = 0.5, lm_y = 0.5\<rparr>) (\<lparr>lm_x = 0.5, lm_y = 0.5\<rparr>)" and ls = "\<lparr>lm_x = 0.5, lm_y = 0.5\<rparr>"
            and rs = "\<lparr>lm_x = 0.5, lm_y = 0.5\<rparr>" and canvas = canvas0 and analyser = None and buf = None
            and video = None, OF pose_of_shoulders]
          head_radius_clamped [where lm = "pose_of (\<lparr>lm_x = 1, lm_y = 0.5\<rparr>) (\<lparr>lm_x = 0, lm_y = 0.5\<rparr>)" and ls = "\<lparr>lm_x = 1, lm_y = 0.5\<rparr>"
            and rs = "\<lparr>lm_x = 0, lm_y = 0.5\<rparr>" and canvas = canvas0 and analyser = None and buf = None
            and video = None, OF pose_of_shoulders]
          d1 d3
    by simp
qed

text \<open>
  C7: with landmarks present and both shoulders found, the mouth is drawn
  \<open>max (0.08 * headRadius) (envelope * headRadius * 0.6)\<close> high, for the head radius
  drawn in the same frame; the idle face draws it \<open>max 6 (envelope * 30)\<close> high, which
  is 6 for envelope 0.12.
\<close>

theorem mouth_height:
  assumes "lm \<noteq> []"
    and "lm_at lm LEFT_SHOULDER = Some ls"
    and "lm_at lm RIGHT_SHOULDER = Some rs"
  shows "roundRect_heights (fst (drawFrame canvas (Some lm) analyser buf video))
           = [map_option
                (\<lambda>envelope.
                   max (0.08 * hd (arc_radii (fst (drawFrame canvas (Some lm) analyser buf video))))
                       (envelope * hd (arc_radii (fst (drawFrame canvas (Some lm) analyser buf video))) * 0.6))
                (fst (mouthOpen_of 0.15 analyser buf))]
         \<and> roundRect_heights (fst (drawFrame canvas None analyser buf video))
             = [map_option (\<lambda>envelope. max 6 (envelope * 30)) (fst (mouthOpen_of 0.12 analyser buf))]
         \<and> (fst (mouthOpen_of 0.12 analyser buf) = Some 0.12 \<longrightarrow>
              roundRect_heights (fst (drawFrame canvas None analyser buf video)) = [Some 6])"
proof -
  have hd_eq: "hd (arc_radii (fst (drawFrame canvas (Some lm) analyser buf video)))
           = headRadius_of (shoulderDist_of canvas ls rs)"
    by (simp add: drawFrame_tracked [OF assms] arc_radii_append arc_radii_background
          arc_radii_skeleton arc_radii_tracked_face)
  have tracked: "roundRect_heights (fst (drawFrame canvas (Some lm) analyser buf video))
           = [map_option (\<lambda>m. max (headRadius_of (shoulderDist_of canvas ls rs) * 0.08)
                          (headRadius_of (shoulderDist_of canvas ls rs) * m * 0.6))
          (fst (mouthOpen_of 0.15 analyser buf))]"
    by (simp add: drawFrame_tracked [OF assms] roundRect_heights_append
          roundRect_heights_background roundRect_heights_skeleton
          roundRect_heights_tracked_face roundRect_heights_video_preview)
  have idle: "roundRect_heights (fst (drawFrame canvas None analyser buf video))
             = [map_option (\<lambda>envelope. max 6 (envelope * 30)) (fst (mouthOpen_of 0.12 analyser buf))]"
    by (simp add: drawFrame_idle roundRect_heights_append
          roundRect_heights_background roundRect_heights_idle_face
          roundRect_heights_video_preview)
  show ?thesis
    unfolding hd_eq tracked idle by (simp add: mult.commute)
qed

theorem mouth_height_witness:
  "roundRect_heights (fst (drawFrame canvas0
        (Some (pose_of \<lparr>lm_x = 0.5, lm_y = 0.5\<rparr> \<lparr>lm_x = 0.5, lm_y = 0.5\<rparr>))
        None None None)) = [Some 2.16]
   \<and> roundRect_heights (fst (drawFrame canvas0 None None None None)) = [Some 6]"
proof -
  have e: "fst (mouthOpen_of 0.12 None None) = Some 0.12"
          "fst (mouthOpen_of 0.15 None None) = Some 0.15"
    by (simp_all add: mouthOpen_of_def)
  have r: "hd (arc_radii (fst (drawFrame canvas0
        (Some (pose_of \<lparr>lm_x = 0.5, lm_y = 0.5\<rparr> \<lparr>lm_x = 0.5, lm_y = 0.5\<rparr>))
        None None None))) = 24"
    by (simp add: drawFrame_tracked [OF pose_of_shoulders] arc_radii_append arc_radii_background
          arc_radii_skeleton arc_radii_tracked_face headRadius_of_def shoulderDist_of_coincident)
  show ?thesis
    using mouth_height [where lm = "pose_of (\<lparr>lm_x = 0.5, lm_y = 0.5\<rparr>) (\<lparr>lm_x = 0.5, lm_y = 0.5\<rparr>)" and ls = "\<lparr>lm_x = 0.5, lm_y = 0.5\<rparr>"
            and rs = "\<lparr>lm_x = 0.5, lm_y = 0.5\<rparr>" and canvas = canvas0 and analyser = None and buf = None
            and video = None, OF pose_of_shoulders] e r
    by simp
qed

text \<open>
  C9: the segments of a frame are exactly those of the SKELETON_CONNECTIONS whose two
  endpoints both exist, in order, each running between the two keypoints' normalized
  coordinates multiplied by the canvas width (x) and height (y).
\<close>

theorem skeleton_segments:
  "segments (fst (drawFrame canvas (Some lm) analyser buf video))
     = map (\<lambda>(a, b).
              ((lm_x (the (lm_at lm a)) * real (width canvas),
                lm_y (the (lm_at lm a)) * real (height canvas)),
               (lm_x (the (lm_at lm b)) * real (width canvas),
                lm_y (the (lm_at lm b)) * real (height canvas))))
         (filter (\<lambda>(a, b). lm_at lm a \<noteq> None \<and> lm_at lm b \<noteq> None) SKELETON_CONNECTIONS)"
proof (cases "lm = []")
  case True
  have "filter (\<lambda>(a, b). lm_at [] a \<noteq> None \<and> lm_at [] b \<noteq> None) SKELETON_CONNECTIONS = []"
    by (simp add: lm_at_def SKELETON_CONNECTIONS_def)
  with True show ?thesis
    by (simp add: drawFrame_idle segments_idle)
next
  case False
  have skel: "\<And>rest. segments (background canvas @ skeleton canvas lm @ rest)
     = map (\<lambda>(a, b).
              ((lm_x (the (lm_at lm a)) * real (width canvas),
                lm_y (the (lm_at lm a)) * real (height canvas)),
               (lm_x (the (lm_at lm b)) * real (width canvas),
                lm_y (the (lm_at lm b)) * real (height canvas))))
         (filter (\<lambda>(a, b). lm_at lm a \<noteq> None \<and> lm_at lm b \<noteq> None) SKELETON_CONNECTIONS)
       @ segments rest"
    by (simp add: background_def skeleton_def segments_skeleton_loop)
  show ?thesis
  proof (cases "lm_at lm LEFT_SHOULDER")
    case None
    then show ?thesis
      using skel [of "video_preview canvas video"] False
      by (simp add: drawFrame_skeleton_only segments_after_skeleton)
  next
    case ls: (Some ls)
    show ?thesis
    proof (cases "lm_at lm RIGHT_SHOULDER")
      case None
      then show ?thesis
        using skel [of "video_preview canvas video"] False
        by (simp add: drawFrame_skeleton_only segments_after_skeleton)
    next
      case (Some rs)
      then show ?thesis
        using skel [of "fst (tracked_face canvas ls rs analyser buf) @ video_preview canvas video"]
          False ls
        by (simp add: drawFrame_tracked segments_after_skeleton)
    qed
  qed
qed

text \<open>
  C10: when the landmark array is non-empty but a shoulder (index 11 or 12) is missing,
  the frame is the background, the skeleton path and the thumbnail: no circle (head,
  eyes) and no rounded rectangle (mouth) is drawn, and the audio is not sampled. The idle
  face is drawn exactly when the landmark cache is absent or empty.
\<close>

theorem shoulderless_frame:
  assumes "lm \<noteq> []"
    and "lm_at lm LEFT_SHOULDER = None \<or> lm_at lm RIGHT_SHOULDER = None"
  shows "fst (drawFrame canvas (Some lm) analyser buf video)
           = background canvas @ skeleton canvas lm @ video_preview canvas video
         \<and> arc_radii (fst (drawFrame canvas (Some lm) analyser buf video)) = []
         \<and> roundRect_heights (fst (drawFrame canvas (Some lm) analyser buf video)) = []
         \<and> snd (drawFrame canvas (Some lm) analyser buf video) = buf
         \<and> (fst (drawFrame canvas landmarks analyser buf video)
              = background canvas @ fst (idle_face canvas analyser buf)
                  @ video_preview canvas video
            \<longleftrightarrow> landmarks = None \<or> landmarks = Some [])"
proof -
  have idle_only: "fst (drawFrame canvas landmarks analyser buf video)
              = background canvas @ fst (idle_face canvas analyser buf)
                  @ video_preview canvas video
            \<longleftrightarrow> landmarks = None \<or> landmarks = Some []"
  proof
    assume eq: "fst (drawFrame canvas landmarks analyser buf video)
              = background canvas @ fst (idle_face canvas analyser buf)
                  @ video_preview canvas video"
    show "landmarks = None \<or> landmarks = Some []"
    proof (rule ccontr)
      assume "\<not> (landmarks = None \<or> landmarks = Some [])"
      then obtain l where l: "landmarks = Some l" "l \<noteq> []" by auto
      then have "\<exists>rest. fst (drawFrame canvas landmarks analyser buf video)
                  = background canvas @ LineWidth 6 # rest"
        by (auto simp: drawFrame_def Let_def skeleton_def split: option.splits)
      with eq show False
        by (auto simp: idle_face_def Let_def)
    qed
  next
    assume "landmarks = None \<or> landmarks = Some []"
    then show "fst (drawFrame canvas landmarks analyser buf video)
              = background canvas @ fst (idle_face canvas analyser buf)
                  @ video_preview canvas video"
      by (rule drawFrame_idle)
  qed
  show ?thesis
    using idle_only
    by (simp add: drawFrame_skeleton_only [OF assms] arc_radii_append roundRect_heights_append
          arc_radii_background arc_radii_skeleton arc_radii_video_preview
          roundRect_heights_background roundRect_heights_skeleton
          roundRect_heights_video_preview)
qed

theorem shoulderless_frame_witness:
  "arc_radii (fst (drawFrame canvas0 (Some [Some \<lparr>lm_x = 0.5, lm_y = 0.5\<rparr>]) None None None)) = []
   \<and> roundRect_heights
       (fst (drawFrame canvas0 (Some [Some \<lparr>lm_x = 0.5, lm_y = 0.5\<rparr>]) None None None)) = []
   \<and> snd (drawFrame canvas0 (Some [Some \<lparr>lm_x = 0.5, lm_y = 0.5\<rparr>]) None None None)
       = None"
proof -
  have ne: "[Some \<lparr>lm_x = 0.5, lm_y = 0.5\<rparr>] \<noteq> []" by simp
  have missing: "lm_at [Some \<lparr>lm_x = 0.5, lm_y = 0.5\<rparr>] LEFT_SHOULDER = None
      \<or> lm_at [Some \<lparr>lm_x = 0.5, lm_y = 0.5\<rparr>] RIGHT_SHOULDER = None"
    by (simp add: lm_at_def LM_defs)
  show ?thesis
    using shoulderless_frame [OF ne missing, of canvas0 None None None None]
    by blast
qed

section \<open>The capture session: helper lemmas\<close>

lemma held_after_append: "held_after rs (cs @ ds) = held_after (held_after rs cs) ds"
  by (induction cs arbitrary: rs) simp_all

lemma held_after_Canvas: "held_after rs (map Canvas ops) = rs"
  by (induction ops arbitrary: rs) simp_all

lemma held_after_tracks:
  "held_after (map MediaTrack ts @ rs) (map TrackStop ts) = rs"
  by (induction ts) simp_all

lemma start_completed:
  assumes "\<forall>s. \<not> throws env s" and "\<not> cancelled env"
  shows "start env (mounted canvas) =
     (let w = \<lparr>canvasRef = Some canvas,
               videoRef = Some \<lparr>srcObject = Some (stream env), readyState = 0\<rparr>,
               cameraRef = Some Camera, poseRef = Some Pose, landmarksRef = None,
               audioContextRef = Some AudioContext,
               analyserRef = Some \<lparr>fftSize = 1024, smoothingTimeConstant = 0.6,
                        timeDomainData = waveform env\<rparr>,
               audioBufferRef = Some (replicate 1024 0),
               rafRef = None,
               calls = [GetUserMedia (stream env), VideoPlay, NewAudioContext,
                        CreateMediaStreamSource, CreateAnalyser, SourceConnect,
                        NewPose, PoseSetOptions, PoseOnResults, NewCamera, CameraStart]\<rparr>
      in render (frame env) w)"
  using assms
  by (simp add: start_def start_body_def attach_video_def audio_setup_def pose_setup_def
        camera_pump_def external_def assign_def mounted_def Let_def)

lemma stop_tracks_result:
  "stop_tracks thr ts w =
     (if \<forall>t \<in> set ts. \<not> thr (R_trackStop t) then Running else Thrown,
      w\<lparr>calls := calls w @ map TrackStop (takeWhile (\<lambda>t. \<not> thr (R_trackStop t)) ts)\<rparr>)"
  by (induction ts arbitrary: w) (simp_all add: external_def)

lemma strict_prefix_same_append:
  "strict_prefix (xs @ ys) (xs @ zs) \<longleftrightarrow> strict_prefix ys zs"
  by (simp add: strict_prefix_def)

lemma strict_prefix_takeWhile:
  "\<exists>t \<in> set ts. \<not> P t \<Longrightarrow> strict_prefix (map f (takeWhile P ts)) (map f ts @ rest)"
proof (induction ts)
  case Nil
  then show ?case by simp
next
  case (Cons t ts)
  then show ?case by (cases "P t") auto
qed

lemma takeWhile_all: "\<forall>t \<in> set ts. P t \<Longrightarrow> takeWhile P ts = ts"
  by (induction ts) simp_all

lemma cancel_frame_result:
  "cancel_frame thr w =
     (if (\<exists>n. rafRef w = Some n \<and> n \<noteq> 0) \<and> thr R_cancelAnimationFrame then (Thrown, w)
      else (Running,
            w\<lparr>rafRef := None,
              calls := calls w @
frame_due w\<rparr>))"
  by (cases "rafRef w") (simp_all add: cancel_frame_def external_def assign_def frame_due_def)

lemma stop_camera_result:
  "stop_camera thr w =
     (if cameraRef w \<noteq> None \<and> thr R_cameraStop then (Thrown, w)
      else (Running,
            w\<lparr>cameraRef := None,
              calls := calls w @ camera_due w\<rparr>))"
  by (cases "cameraRef w") (simp_all add: stop_camera_def external_def assign_def camera_due_def)

lemma close_pose_result:
  "close_pose thr w =
     (if poseRef w \<noteq> None \<and> thr R_poseClose then (Thrown, w)
      else (Running,
            w\<lparr>poseRef := None,
              calls := calls w @ pose_due w\<rparr>))"
  by (cases "poseRef w") (simp_all add: close_pose_def external_def assign_def pose_due_def)

lemma release_video_result:
  "release_video thr w =
     (case videoRef w of
        None \<Rightarrow> (Running, w)
      | Some v \<Rightarrow>
          (case srcObject v of
             None \<Rightarrow> (Running, w)
           | Some s \<Rightarrow>
               if \<forall>t \<in> set (getTracks s). \<not> thr (R_trackStop t)
               then (Running,
                     w\<lparr>videoRef := Some (v\<lparr>srcObject := None\<rparr>),
                       calls := calls w @ map TrackStop (getTracks s)\<rparr>)
               else (Thrown,
                     w\<lparr>calls := calls w @
                         map TrackStop
                           (takeWhile (\<lambda>t. \<not> thr (R_trackStop t)) (getTracks s))\<rparr>)))"
  by (simp add: release_video_def stop_tracks_result assign_def takeWhile_all
      split: option.split)

lemma release_audio_result:
  "release_audio thr w =
     (if analyserRef w \<noteq> None \<and> thr R_analyserDisconnect then (Thrown, w)
      else if audioContextRef w \<noteq> None \<and> thr R_audioContextClose
      then (Thrown,
            w\<lparr>analyserRef := None,
              calls := calls w @
                (case analyserRef w of None \<Rightarrow> [] | Some a \<Rightarrow> [AnalyserDisconnect])\<rparr>)
      else (Running,
            w\<lparr>analyserRef := None, audioContextRef := None, audioBufferRef := None,
              calls := calls w @ audio_due w\<rparr>))"
  by (cases "analyserRef w"; cases "audioContextRef w")
     (simp_all add: release_audio_def external_def assign_def audio_due_def)

lemma strict_prefix_self_append: "strict_prefix xs (xs @ ys) \<longleftrightarrow> ys \<noteq> []"
  using strict_prefix_same_append [of xs "[]" ys] by (cases ys) simp_all

lemma strict_prefix_takeWhile_map:
  "t \<in> set ts \<Longrightarrow> \<not> P t \<Longrightarrow> strict_prefix (map f (takeWhile P ts)) (map f ts)"
  using strict_prefix_takeWhile [of ts P f "[]"] by auto

lemma strict_prefix_appendR: "strict_prefix xs ys \<Longrightarrow> strict_prefix xs (ys @ zs)"
  by (metis prefix_order.less_le_trans prefixI)

lemma run_steps_logs:
  assumes head: "\<And>w. (fst (f w) = Running \<longrightarrow>
                        calls (snd (f w)) = calls w @ d w \<and> D (snd (f w)) = D w)
                     \<and> (fst (f w) = Thrown \<longrightarrow>
                          strict_prefix (calls (snd (f w))) (calls w @ d w))
                     \<and> fst (f w) \<noteq> Returned"
    and rest: "\<And>w. (fst (run_steps fs w) = Running \<longrightarrow>
                        calls (snd (run_steps fs w)) = calls w @ D w)
                     \<and> (fst (run_steps fs w) = Thrown \<longrightarrow>
                          strict_prefix (calls (snd (run_steps fs w))) (calls w @ D w))
                     \<and> fst (run_steps fs w) \<noteq> Returned"
  shows "(fst (run_steps (f # fs) w) = Running \<longrightarrow>
            calls (snd (run_steps (f # fs) w)) = calls w @ d w @ D w)
         \<and> (fst (run_steps (f # fs) w) = Thrown \<longrightarrow>
              strict_prefix (calls (snd (run_steps (f # fs) w))) (calls w @ d w @ D w))
         \<and> fst (run_steps (f # fs) w) \<noteq> Returned"
proof (cases "f w")
  case (Pair s w')
  show ?thesis
  proof (cases s)
    case Running
    with Pair head [of w] have h: "calls w' = calls w @ d w" "D w' = D w" by simp_all
    from Running Pair have "run_steps (f # fs) w = run_steps fs w'" by simp
    with rest [of w'] h show ?thesis by simp
  next
    case Returned
    with Pair head [of w] show ?thesis by simp
  next
    case Thrown
    with Pair head [of w] have "strict_prefix (calls w') (calls w @ d w)" by simp
    then have "strict_prefix (calls w') ((calls w @ d w) @ D w)"
      by (rule strict_prefix_appendR)
    with Thrown Pair show ?thesis by simp
  qed
qed

lemma release_audio_logs:
  "(fst (run_steps [release_audio thr] w) = Running \<longrightarrow>
      calls (snd (run_steps [release_audio thr] w)) = calls w @ audio_due w)
   \<and> (fst (run_steps [release_audio thr] w) = Thrown \<longrightarrow>
        strict_prefix (calls (snd (run_steps [release_audio thr] w))) (calls w @ audio_due w))
   \<and> fst (run_steps [release_audio thr] w) \<noteq> Returned"
  by (auto simp: release_audio_result audio_due_def strict_prefix_same_append strict_prefix_self_append)

lemma release_video_logs:
  "(fst (release_video thr w) = Running \<longrightarrow>
      calls (snd (release_video thr w)) = calls w @ video_due w
      \<and> audio_due (snd (release_video thr w)) = audio_due w)
   \<and> (fst (release_video thr w) = Thrown \<longrightarrow>
        strict_prefix (calls (snd (release_video thr w))) (calls w @ video_due w))
   \<and> fst (release_video thr w) \<noteq> Returned"
  by (auto simp: release_video_result video_due_def audio_due_def strict_prefix_same_append
        strict_prefix_takeWhile_map
      split: option.split)

lemma close_pose_logs:
  "(fst (close_pose thr w) = Running \<longrightarrow>
      calls (snd (close_pose thr w)) = calls w @ pose_due w
      \<and> video_due (snd (close_pose thr w)) @ audio_due (snd (close_pose thr w))
          = video_due w @ audio_due w)
   \<and> (fst (close_pose thr w) = Thrown \<longrightarrow>
        strict_prefix (calls (snd (close_pose thr w))) (calls w @ pose_due w))
   \<and> fst (close_pose thr w) \<noteq> Returned"
  by (auto simp: close_pose_result pose_due_def video_due_def audio_due_def
        strict_prefix_same_append strict_prefix_self_append)

lemma stop_camera_logs:
  "(fst (stop_camera thr w) = Running \<longrightarrow>
      calls (snd (stop_camera thr w)) = calls w @ camera_due w
      \<and> pose_due (snd (stop_camera thr w)) @ video_due (snd (stop_camera thr w))
            @ audio_due (snd (stop_camera thr w))
          = pose_due w @ video_due w @ audio_due w)
   \<and> (fst (stop_camera thr w) = Thrown \<longrightarrow>
        strict_prefix (calls (snd (stop_camera thr w))) (calls w @ camera_due w))
   \<and> fst (stop_camera thr w) \<noteq> Returned"
  by (auto simp: stop_camera_result camera_due_def pose_due_def video_due_def audio_due_def
        strict_prefix_same_append strict_prefix_self_append)

lemma cancel_frame_logs:
  "(fst (cancel_frame thr w) = Running \<longrightarrow>
      calls (snd (cancel_frame thr w)) = calls w @ frame_due w
      \<and> camera_due (snd (cancel_frame thr w)) @ pose_due (snd (cancel_frame thr w))
            @ video_due (snd (cancel_frame thr w)) @ audio_due (snd (cancel_frame thr w))
          = camera_due w @ pose_due w @ video_due w @ audio_due w)
   \<and> (fst (cancel_frame thr w) = Thrown \<longrightarrow>
        strict_prefix (calls (snd (cancel_frame thr w))) (calls w @ frame_due w))
   \<and> fst (cancel_frame thr w) \<noteq> Returned"
  by (auto simp: cancel_frame_result frame_due_def camera_due_def pose_due_def video_due_def
        audio_due_def strict_prefix_same_append strict_prefix_self_append)

lemma stop_logs:
  "(fst (stop thr w) = Running \<longrightarrow> calls (snd (stop thr w)) = calls w @ releases_due w)
   \<and> (fst (stop thr w) = Thrown \<longrightarrow>
        strict_prefix (calls (snd (stop thr w))) (calls w @ releases_due w))
   \<and> fst (stop thr w) \<noteq> Returned"
  unfolding stop_def releases_due_def
  by (intro run_steps_logs cancel_frame_logs stop_camera_logs close_pose_logs
        release_video_logs release_audio_logs)

lemmas stop_group_results =
  cancel_frame_result stop_camera_result close_pose_result release_video_result
  release_audio_result

lemma run_steps_preserves:
  assumes "\<And>f w. f \<in> set fs \<Longrightarrow> P (snd (f w)) = P w"
  shows "P (snd (run_steps fs w)) = P w"
  using assms
proof (induction fs arbitrary: w)
  case Nil
  then show ?case by simp
next
  case (Cons f fs)
  have step: "P (snd (f w)) = P w" using Cons.prems by simp
  have rest: "\<And>w'. P (snd (run_steps fs w')) = P w'" using Cons by simp
  show ?case
  proof (cases "f w")
    case (Pair s w')
    with step rest [of w'] show ?thesis by (cases s) simp_all
  qed
qed

lemma stop_landmarksRef: "landmarksRef (snd (stop thr w)) = landmarksRef w"
  unfolding stop_def
  by (rule run_steps_preserves) (auto simp: stop_group_results split: option.split)

lemma update_srcObject_None: "srcObject v = None \<Longrightarrow> v\<lparr>srcObject := None\<rparr> = v"
  by (cases v) simp

lemma stop_no_throw:
  assumes "\<forall>s. \<not> thr s"
  shows "stop thr w =
     (Running,
      w\<lparr>rafRef := None, cameraRef := None, poseRef := None,
        videoRef := map_option (\<lambda>v. v\<lparr>srcObject := None\<rparr>) (videoRef w),
        analyserRef := None, audioContextRef := None, audioBufferRef := None,
        calls := calls w @ releases_due w\<rparr>)"
proof (cases "videoRef w")
  case None
  with assms show ?thesis
    by (simp add: stop_def stop_group_results releases_due_def video_due_def frame_due_def camera_due_def
            pose_due_def audio_due_def)
next
  case (Some v)
  show ?thesis
  proof (cases "srcObject v")
    case None
    with Some assms show ?thesis
      by (simp add: stop_def stop_group_results releases_due_def video_due_def frame_due_def camera_due_def
            pose_due_def audio_due_def
            update_srcObject_None)
  next
    case (Some s)
    with \<open>videoRef w = Some v\<close> assms show ?thesis
      by (simp add: stop_def stop_group_results releases_due_def video_due_def frame_due_def camera_due_def
            pose_due_def audio_due_def)
  qed
qed

lemma held_after_Canvas_append: "held_after rs (map Canvas ops @ cs) = held_after rs cs"
  by (simp add: held_after_append held_after_Canvas)

lemma start_completed_world:
  assumes "\<forall>s. \<not> throws env s" and "\<not> cancelled env" and "context2d canvas"
  shows "start env (mounted canvas) =
     \<lparr>canvasRef = Some canvas,
      videoRef = Some \<lparr>srcObject = Some (stream env), readyState = 0\<rparr>,
      cameraRef = Some Camera, poseRef = Some Pose, landmarksRef = None,
      audioContextRef = Some AudioContext,
      analyserRef = Some \<lparr>fftSize = 1024, smoothingTimeConstant = 0.6,
                           timeDomainData = waveform env\<rparr>,
      audioBufferRef =
        snd (drawFrame canvas None
               (Some \<lparr>fftSize = 1024, smoothingTimeConstant = 0.6,
                      timeDomainData = waveform env\<rparr>)
               (Some (replicate 1024 0))
               (Some \<lparr>srcObject = Some (stream env), readyState = 0\<rparr>)),
      rafRef = Some (frame env),
      calls = [GetUserMedia (stream env), VideoPlay, NewAudioContext,
               CreateMediaStreamSource, CreateAnalyser, SourceConnect,
               NewPose, PoseSetOptions, PoseOnResults, NewCamera, CameraStart]
              @ map Canvas
                  (fst (drawFrame canvas None
                     (Some \<lparr>fftSize = 1024, smoothingTimeConstant = 0.6,
                            timeDomainData = waveform env\<rparr>)
                     (Some (replicate 1024 0))
                     (Some \<lparr>srcObject = Some (stream env), readyState = 0\<rparr>)))
              @ [RequestAnimationFrame (frame env)]\<rparr>"
  using assms by (simp add: start_completed render_def Let_def)

lemma env0_ok: "\<forall>s. \<not> throws env0 s" "\<not> cancelled env0" "context2d canvas0"
  by (simp_all add: env0_def canvas0_def)

lemma env0_fields:
  "stream env0 = MediaStream [0, 1]" "frame env0 = 1" "waveform env0 = replicate 1024 0"
  by (simp_all add: env0_def)

lemmas started0 = start_completed_world [OF env0_ok]

lemma no_throw_never: "\<forall>s. \<not> no_throw s"
  by (simp add: no_throw_def)

lemmas start_defs =
  start_def start_body_def attach_video_def audio_setup_def pose_setup_def
  camera_pump_def external_def assign_def

lemma held_after_tracks_Nil: "held_after (map MediaTrack ts) (map TrackStop ts) = []"
  using held_after_tracks [of ts "[]"] by simp

lemma start_media_denied:
  "throws env S_getUserMedia \<Longrightarrow> start env w = w\<lparr>calls := calls w @ [ConsoleError]\<rparr>"
  by (simp add: start_defs)

lemma start_audio_fails:
  assumes "\<not> throws env S_getUserMedia" and "\<not> cancelled env" and "\<not> throws env S_play"
    and "throws env S_newAudioContext \<or> throws env S_createMediaStreamSource
         \<or> throws env S_createAnalyser \<or> throws env S_connect"
  shows "start env (mounted canvas) =
     \<lparr>canvasRef = Some canvas,
      videoRef = Some \<lparr>srcObject = Some (stream env), readyState = 0\<rparr>,
      cameraRef = None, poseRef = None, landmarksRef = None,
      audioContextRef = (if throws env S_newAudioContext then None else Some AudioContext),
      analyserRef = None, audioBufferRef = None, rafRef = None,
      calls = [GetUserMedia (stream env), VideoPlay]
              @ (if throws env S_newAudioContext then []
                 else NewAudioContext #
                   (if throws env S_createMediaStreamSource then []
                    else CreateMediaStreamSource #
                      (if throws env S_createAnalyser then [] else [CreateAnalyser])))
              @ [ConsoleError]\<rparr>"
  using assms by (auto simp: start_defs mounted_def)

lemma start_pose_fails:
  assumes "\<not> throws env S_getUserMedia" and "\<not> cancelled env" and "\<not> throws env S_play"
    and "\<not> throws env S_newAudioContext" and "\<not> throws env S_createMediaStreamSource"
    and "\<not> throws env S_createAnalyser" and "\<not> throws env S_connect"
    and "throws env S_newPose"
  shows "start env (mounted canvas) =
     \<lparr>canvasRef = Some canvas,
      videoRef = Some \<lparr>srcObject = Some (stream env), readyState = 0\<rparr>,
      cameraRef = None, poseRef = None, landmarksRef = None,
      audioContextRef = Some AudioContext,
      analyserRef = Some \<lparr>fftSize = 1024, smoothingTimeConstant = 0.6,
                           timeDomainData = waveform env\<rparr>,
      audioBufferRef = Some (replicate 1024 0), rafRef = None,
      calls = [GetUserMedia (stream env), VideoPlay, NewAudioContext,
               CreateMediaStreamSource, CreateAnalyser, SourceConnect, ConsoleError]\<rparr>"
  using assms by (simp add: start_defs mounted_def)

subsection \<open>The releases stop makes, exactly\<close>

lemma run_steps_exact:
  assumes head: "\<And>w. calls (snd (f w)) = calls w @ takeWhile P (d w)
                     \<and> fst (f w) = (if \<forall>c \<in> set (d w). P c then Running else Thrown)
                     \<and> (fst (f w) = Running \<longrightarrow> D (snd (f w)) = D w)"
    and rest: "\<And>w. calls (snd (run_steps fs w)) = calls w @ takeWhile P (D w)
                     \<and> fst (run_steps fs w)
                         = (if \<forall>c \<in> set (D w). P c then Running else Thrown)"
  shows "calls (snd (run_steps (f # fs) w)) = calls w @ takeWhile P (d w @ D w)
         \<and> fst (run_steps (f # fs) w)
             = (if \<forall>c \<in> set (d w @ D w). P c then Running else Thrown)"
proof (cases "f w")
  case (Pair s w')
  show ?thesis
  proof (cases "\<forall>c \<in> set (d w). P c")
    case True
    with Pair head [of w] have h: "s = Running" "calls w' = calls w @ d w" "D w' = D w"
      by (simp_all add: takeWhile_all)
    from h Pair have "run_steps (f # fs) w = run_steps fs w'" by simp
    with rest [of w'] h True show ?thesis
      by (auto simp: takeWhile_append2)
  next
    case False
    with Pair head [of w] have h: "s = Thrown" "calls w' = calls w @ takeWhile P (d w)"
      by simp_all
    from False obtain c where "c \<in> set (d w)" "\<not> P c" by auto
    then have "takeWhile P (d w @ D w) = takeWhile P (d w)"
      by (rule takeWhile_append1)
    with h Pair False show ?thesis by auto
  qed
qed

lemma cancel_frame_exact:
  "calls (snd (cancel_frame thr w))
     = calls w @ takeWhile (\<lambda>c. \<not> release_throws thr c) (frame_due w)
   \<and> fst (cancel_frame thr w)
       = (if \<forall>c \<in> set (frame_due w). \<not> release_throws thr c then Running else Thrown)
   \<and> (fst (cancel_frame thr w) = Running \<longrightarrow>
        camera_due (snd (cancel_frame thr w)) @ pose_due (snd (cancel_frame thr w))
            @ video_due (snd (cancel_frame thr w)) @ audio_due (snd (cancel_frame thr w))
          = camera_due w @ pose_due w @ video_due w @ audio_due w)"
  by (cases "rafRef w")
     (simp_all add: cancel_frame_result frame_due_def camera_due_def pose_due_def video_due_def
        audio_due_def)

lemma stop_camera_exact:
  "calls (snd (stop_camera thr w))
     = calls w @ takeWhile (\<lambda>c. \<not> release_throws thr c) (camera_due w)
   \<and> fst (stop_camera thr w)
       = (if \<forall>c \<in> set (camera_due w). \<not> release_throws thr c then Running else Thrown)
   \<and> (fst (stop_camera thr w) = Running \<longrightarrow>
        pose_due (snd (stop_camera thr w)) @ video_due (snd (stop_camera thr w))
            @ audio_due (snd (stop_camera thr w))
          = pose_due w @ video_due w @ audio_due w)"
  by (cases "cameraRef w")
     (simp_all add: stop_camera_result camera_due_def pose_due_def video_due_def audio_due_def)

lemma close_pose_exact:
  "calls (snd (close_pose thr w))
     = calls w @ takeWhile (\<lambda>c. \<not> release_throws thr c) (pose_due w)
   \<and> fst (close_pose thr w)
       = (if \<forall>c \<in> set (pose_due w). \<not> release_throws thr c then Running else Thrown)
   \<and> (fst (close_pose thr w) = Running \<longrightarrow>
        video_due (snd (close_pose thr w)) @ audio_due (snd (close_pose thr w))
          = video_due w @ audio_due w)"
  by (cases "poseRef w")
     (simp_all add: close_pose_result pose_due_def video_due_def audio_due_def)

lemma takeWhile_TrackStop:
  "takeWhile (\<lambda>c. \<not> release_throws thr c) (map TrackStop ts)
     = map TrackStop (takeWhile (\<lambda>t. \<not> thr (R_trackStop t)) ts)"
  by (induction ts) simp_all

lemma release_video_exact:
  "calls (snd (release_video thr w))
     = calls w @ takeWhile (\<lambda>c. \<not> release_throws thr c) (video_due w)
   \<and> fst (release_video thr w)
       = (if \<forall>c \<in> set (video_due w). \<not> release_throws thr c then Running else Thrown)
   \<and> (fst (release_video thr w) = Running \<longrightarrow>
        audio_due (snd (release_video thr w)) = audio_due w)"
  by (auto simp: release_video_result video_due_def audio_due_def takeWhile_TrackStop
        takeWhile_all
      split: option.split)

lemma release_audio_exact:
  "calls (snd (run_steps [release_audio thr] w))
     = calls w @ takeWhile (\<lambda>c. \<not> release_throws thr c) (audio_due w)
   \<and> fst (run_steps [release_audio thr] w)
       = (if \<forall>c \<in> set (audio_due w). \<not> release_throws thr c then Running else Thrown)"
  by (cases "analyserRef w"; cases "audioContextRef w")
     (simp_all add: release_audio_result audio_due_def)

lemma stop_exact:
  "calls (snd (stop thr w))
     = calls w @ takeWhile (\<lambda>c. \<not> release_throws thr c) (releases_due w)
   \<and> fst (stop thr w)
       = (if \<forall>c \<in> set (releases_due w). \<not> release_throws thr c then Running else Thrown)"
  unfolding stop_def releases_due_def
  by (intro run_steps_exact cancel_frame_exact stop_camera_exact close_pose_exact
        release_video_exact release_audio_exact)

lemma run_steps_snoc:
  "run_steps (fs @ [g]) w =
     (case run_steps fs w of
        (Running, w') \<Rightarrow> g w'
      | (Returned, w') \<Rightarrow> (Returned, w')
      | (Thrown, w') \<Rightarrow> (Thrown, w'))"
proof (induction fs arbitrary: w)
  case Nil
  show ?case by (cases "g w" rule: prod.exhaust) (auto split: status.splits)
next
  case (Cons f fs)
  show ?case
    by (cases "f w" rule: prod.exhaust) (auto simp: Cons split: status.splits)
qed

lemma stop_Thrown_audioBufferRef:
  assumes "fst (stop thr w) = Thrown"
  shows "audioBufferRef (snd (stop thr w)) = audioBufferRef w"
proof -
  let ?fs = "[cancel_frame thr, stop_camera thr, close_pose thr, release_video thr]"
  have pres: "audioBufferRef (snd (run_steps ?fs w)) = audioBufferRef w"
    by (rule run_steps_preserves) (auto simp: stop_group_results split: option.split)
  have split: "stop thr w = run_steps (?fs @ [release_audio thr]) w"
    by (simp add: stop_def)
  obtain s w' where r: "run_steps ?fs w = (s, w')" by force
  with pres have w': "audioBufferRef w' = audioBufferRef w" by simp
  show ?thesis
  proof (cases s)
    case Running
    with r split have "stop thr w = release_audio thr w'"
      by (simp only: run_steps_snoc prod.case status.case)
    with assms w' show ?thesis
      by (auto simp: release_audio_result split: if_splits)
  next
    case Returned
    with r split have "stop thr w = (Returned, w')"
      by (simp only: run_steps_snoc prod.case status.case)
    with assms show ?thesis by simp
  next
    case Thrown
    with r split have "stop thr w = (Thrown, w')"
      by (simp only: run_steps_snoc prod.case status.case)
    with w' show ?thesis by simp
  qed
qed

lemma releases_due_started0:
  "releases_due (start env0 (mounted canvas0))
     = [CancelAnimationFrame 1, CameraStop, PoseClose, TrackStop 0, TrackStop 1,
        AnalyserDisconnect, AudioContextClose]"
  by (simp add: started0 releases_due_def frame_due_def camera_due_def pose_due_def
        video_due_def audio_due_def env0_fields)

section \<open>Claims about the capture session\<close>

text \<open>
  C1: after a completed start, one stop releases every acquired resource once and discards
  the sample buffer and the landmark cache, and a second stop is a no-op. Evaluated on a
  completed start whose pose callback has delivered landmarks: stop cancels the frame,
  stops the pump, closes the detector, stops both tracks, clears the video source,
  disconnects the analyser, closes the audio context and drops the buffer, each once, and
  a second stop changes nothing; but the landmark cache still holds the delivered
  landmarks, since no statement of the stop branch assigns \<open>landmarksRef\<close>.
\<close>

theorem stop_keeps_landmark_cache:
  "stop no_throw
     (onResults (Some (pose_of \<lparr>lm_x = 0.5, lm_y = 0.5\<rparr> \<lparr>lm_x = 0.4, lm_y = 0.5\<rparr>))
        (start env0 (mounted canvas0)))
   = (Running,
      (start env0 (mounted canvas0))
        \<lparr>rafRef := None, cameraRef := None, poseRef := None,
         videoRef := Some \<lparr>srcObject = None, readyState = 0\<rparr>,
         analyserRef := None, audioContextRef := None, audioBufferRef := None,
         landmarksRef := Some (pose_of \<lparr>lm_x = 0.5, lm_y = 0.5\<rparr> \<lparr>lm_x = 0.4, lm_y = 0.5\<rparr>),
         calls := calls (start env0 (mounted canvas0))
                   @ [CancelAnimationFrame 1, CameraStop, PoseClose, TrackStop 0, TrackStop 1,
                      AnalyserDisconnect, AudioContextClose]\<rparr>)
   \<and> held (calls (snd (stop no_throw
        (onResults (Some (pose_of \<lparr>lm_x = 0.5, lm_y = 0.5\<rparr> \<lparr>lm_x = 0.4, lm_y = 0.5\<rparr>))
           (start env0 (mounted canvas0)))))) = []
   \<and> landmarksRef (snd (stop no_throw
        (onResults (Some (pose_of \<lparr>lm_x = 0.5, lm_y = 0.5\<rparr> \<lparr>lm_x = 0.4, lm_y = 0.5\<rparr>))
           (start env0 (mounted canvas0))))) \<noteq> None
   \<and> stop no_throw (snd (stop no_throw
        (onResults (Some (pose_of \<lparr>lm_x = 0.5, lm_y = 0.5\<rparr> \<lparr>lm_x = 0.4, lm_y = 0.5\<rparr>))
           (start env0 (mounted canvas0)))))
       = (Running, snd (stop no_throw
        (onResults (Some (pose_of \<lparr>lm_x = 0.5, lm_y = 0.5\<rparr> \<lparr>lm_x = 0.4, lm_y = 0.5\<rparr>))
           (start env0 (mounted canvas0)))))"
  by (simp add: stop_no_throw [OF no_throw_never] started0 onResults_def releases_due_def
        frame_due_def camera_due_def pose_due_def video_due_def audio_due_def env0_fields
        held_def held_after_Canvas_append)

text \<open>
  C3 (as stated): whichever step of start fails, no resource is left held. This fails:
  when the pose detector cannot be constructed, the audio context is still referenced,
  the stream is still attached to the video element, and both tracks and the audio
  context are still held.
\<close>

theorem start_pose_failure_counterexample:
  "audioContextRef (start env_pose_fails (mounted canvas0)) = Some AudioContext
   \<and> videoRef (start env_pose_fails (mounted canvas0))
       = Some \<lparr>srcObject = Some (MediaStream [0, 1]), readyState = 0\<rparr>
   \<and> held (calls (start env_pose_fails (mounted canvas0)))
       = [MediaTrack 0, MediaTrack 1, AudioCtx]"
  by (simp add: start_defs mounted_def env_pose_fails_def env0_def held_def)

text \<open>
  C3 (amended): when device acquisition fails, start aborts leaving no resource held and
  nothing but the logged error changed. When audio-graph construction or pose-detector
  construction fails, start aborts with no frame pump, no detector ref and no render
  frame, but keeps what it acquired before the failing step (the live tracks, and the
  audio context once it was created); the next stop releases them.
\<close>

theorem start_failure:
  "(throws env S_getUserMedia \<longrightarrow>
      start env (mounted canvas) = (mounted canvas)\<lparr>calls := [ConsoleError]\<rparr>
      \<and> held (calls (start env (mounted canvas))) = [])
   \<and> (\<not> throws env S_getUserMedia \<and> \<not> cancelled env \<and> \<not> throws env S_play
       \<and> (throws env S_newAudioContext \<or> throws env S_createMediaStreamSource
            \<or> throws env S_createAnalyser \<or> throws env S_connect) \<longrightarrow>
      held (calls (start env (mounted canvas)))
        = map MediaTrack (getTracks (stream env))
            @ (if throws env S_newAudioContext then [] else [AudioCtx])
      \<and> cameraRef (start env (mounted canvas)) = None
      \<and> poseRef (start env (mounted canvas)) = None
      \<and> rafRef (start env (mounted canvas)) = None
      \<and> held (calls (snd (stop no_throw (start env (mounted canvas))))) = [])
   \<and> (\<not> throws env S_getUserMedia \<and> \<not> cancelled env \<and> \<not> throws env S_play
       \<and> \<not> throws env S_newAudioContext \<and> \<not> throws env S_createMediaStreamSource
       \<and> \<not> throws env S_createAnalyser \<and> \<not> throws env S_connect
       \<and> throws env S_newPose \<longrightarrow>
      held (calls (start env (mounted canvas)))
        = map MediaTrack (getTracks (stream env)) @ [AudioCtx]
      \<and> audioContextRef (start env (mounted canvas)) = Some AudioContext
      \<and> cameraRef (start env (mounted canvas)) = None
      \<and> poseRef (start env (mounted canvas)) = None
      \<and> rafRef (start env (mounted canvas)) = None
      \<and> held (calls (snd (stop no_throw (start env (mounted canvas))))) = [])"
proof (intro conjI impI)
  assume "throws env S_getUserMedia"
  then show "start env (mounted canvas) = (mounted canvas)\<lparr>calls := [ConsoleError]\<rparr>"
    and "held (calls (start env (mounted canvas))) = []"
    by (simp_all add: start_media_denied mounted_def held_def)
next
  assume a: "\<not> throws env S_getUserMedia \<and> \<not> cancelled env \<and> \<not> throws env S_play
       \<and> (throws env S_newAudioContext \<or> throws env S_createMediaStreamSource
            \<or> throws env S_createAnalyser \<or> throws env S_connect)"
  then have w: "start env (mounted canvas) =
     \<lparr>canvasRef = Some canvas,
      videoRef = Some \<lparr>srcObject = Some (stream env), readyState = 0\<rparr>,
      cameraRef = None, poseRef = None, landmarksRef = None,
      audioContextRef = (if throws env S_newAudioContext then None else Some AudioContext),
      analyserRef = None, audioBufferRef = None, rafRef = None,
      calls = [GetUserMedia (stream env), VideoPlay]
              @ (if throws env S_newAudioContext then []
                 else NewAudioContext #
                   (if throws env S_createMediaStreamSource then []
                    else CreateMediaStreamSource #
                      (if throws env S_createAnalyser then [] else [CreateAnalyser])))
              @ [ConsoleError]\<rparr>"
    by (intro start_audio_fails) simp_all
  show "held (calls (start env (mounted canvas)))
        = map MediaTrack (getTracks (stream env))
            @ (if throws env S_newAudioContext then [] else [AudioCtx])"
    unfolding w by (simp add: held_def)
  show "cameraRef (start env (mounted canvas)) = None"
    "poseRef (start env (mounted canvas)) = None"
    "rafRef (start env (mounted canvas)) = None"
    unfolding w by simp_all
  show "held (calls (snd (stop no_throw (start env (mounted canvas))))) = []"
    unfolding w
    by (simp add: stop_no_throw [OF no_throw_never] releases_due_def frame_due_def
          camera_due_def pose_due_def video_due_def audio_due_def held_def
          held_after_append held_after_tracks held_after_tracks_Nil)
next
  assume a: "\<not> throws env S_getUserMedia \<and> \<not> cancelled env \<and> \<not> throws env S_play
       \<and> \<not> throws env S_newAudioContext \<and> \<not> throws env S_createMediaStreamSource
       \<and> \<not> throws env S_createAnalyser \<and> \<not> throws env S_connect
       \<and> throws env S_newPose"
  then have w: "start env (mounted canvas) =
     \<lparr>canvasRef = Some canvas,
      videoRef = Some \<lparr>srcObject = Some (stream env), readyState = 0\<rparr>,
      cameraRef = None, poseRef = None, landmarksRef = None,
      audioContextRef = Some AudioContext,
      analyserRef = Some \<lparr>fftSize = 1024, smoothingTimeConstant = 0.6,
                           timeDomainData = waveform env\<rparr>,
      audioBufferRef = Some (replicate 1024 0), rafRef = None,
      calls = [GetUserMedia (stream env), VideoPlay, NewAudioContext,
               CreateMediaStreamSource, CreateAnalyser, SourceConnect, ConsoleError]\<rparr>"
    by (intro start_pose_fails) simp_all
  show "held (calls (start env (mounted canvas)))
        = map MediaTrack (getTracks (stream env)) @ [AudioCtx]"
    unfolding w by (simp add: held_def)
  show "audioContextRef (start env (mounted canvas)) = Some AudioContext"
    "cameraRef (start env (mounted canvas)) = None"
    "poseRef (start env (mounted canvas)) = None"
    "rafRef (start env (mounted canvas)) = None"
    unfolding w by simp_all
  show "held (calls (snd (stop no_throw (start env (mounted canvas))))) = []"
    unfolding w
    by (simp add: stop_no_throw [OF no_throw_never] releases_due_def frame_due_def
          camera_due_def pose_due_def video_due_def audio_due_def held_def
          held_after_append held_after_tracks held_after_tracks_Nil)
qed

theorem start_failure_witness:
  "start env_media_denied (mounted canvas0) = (mounted canvas0)\<lparr>calls := [ConsoleError]\<rparr>
   \<and> held (calls (start env_media_denied (mounted canvas0))) = []
   \<and> held (calls (start env_pose_fails (mounted canvas0))) = [MediaTrack 0, MediaTrack 1, AudioCtx]
   \<and> held (calls (snd (stop no_throw (start env_pose_fails (mounted canvas0))))) = []
   \<and> held (calls (start env_analyser_fails (mounted canvas0)))
       = [MediaTrack 0, MediaTrack 1, AudioCtx]
   \<and> held (calls (snd (stop no_throw (start env_analyser_fails (mounted canvas0))))) = []"
proof -
  have denied: "throws env_media_denied S_getUserMedia"
    by (simp add: env_media_denied_def)
  have pose: "\<not> throws env_pose_fails S_getUserMedia \<and> \<not> cancelled env_pose_fails
       \<and> \<not> throws env_pose_fails S_play
       \<and> \<not> throws env_pose_fails S_newAudioContext
       \<and> \<not> throws env_pose_fails S_createMediaStreamSource
       \<and> \<not> throws env_pose_fails S_createAnalyser \<and> \<not> throws env_pose_fails S_connect
       \<and> throws env_pose_fails S_newPose"
    "stream env_pose_fails = MediaStream [0, 1]"
    by (simp_all add: env_pose_fails_def env0_def)
  have analyser: "\<not> throws env_analyser_fails S_getUserMedia"
    "\<not> cancelled env_analyser_fails" "\<not> throws env_analyser_fails S_play"
    "\<not> throws env_analyser_fails S_newAudioContext"
    "throws env_analyser_fails S_createAnalyser"
    "stream env_analyser_fails = MediaStream [0, 1]"
    by (simp_all add: env_analyser_fails_def env0_def)
  show ?thesis
    using start_failure [of env_media_denied canvas0]
      start_failure [of env_pose_fails canvas0]
      start_failure [of env_analyser_fails canvas0]
      denied pose analyser
    by (simp add: held_def)
qed

text \<open>
  C4 (as stated): every release step of stop runs even if an earlier one throws. This
  fails: when the frame pump's \<open>stop\<close> throws, the stop branch ends there; the
  detector is not closed and stays referenced, and tracks, audio context, detector and
  pump remain held.
\<close>

theorem stop_aborts_counterexample:
  "fst (stop camera_stop_throws (start env0 (mounted canvas0))) = Thrown
   \<and> PoseClose \<notin> set (calls (snd (stop camera_stop_throws (start env0 (mounted canvas0)))))
   \<and> poseRef (snd (stop camera_stop_throws (start env0 (mounted canvas0)))) = Some Pose
   \<and> held (calls (snd (stop camera_stop_throws (start env0 (mounted canvas0)))))
       = [MediaTrack 0, MediaTrack 1, AudioCtx, PoseDetector, FramePump]"
  by (auto simp: started0 stop_def stop_group_results camera_stop_throws_def frame_due_def
        env0_fields held_def held_after_Canvas_append)

text \<open>
  C4 (amended): the release steps of stop run in order, each provided no earlier one
  threw, and stop ends at the first release call that throws. The calls stop adds to the
  log are exactly the releases due up to, and not including, the first one that throws;
  what was logged before is kept. Stop ends in an exception exactly when some due release
  throws, and then the later statements have not run (the sample buffer is not discarded);
  otherwise it completes with every due release made.
\<close>

theorem stop_release_steps:
  "calls (snd (stop thr w))
     = calls w @ takeWhile (\<lambda>c. \<not> release_throws thr c) (releases_due w)
   \<and> fst (stop thr w)
       = (if \<forall>c \<in> set (releases_due w). \<not> release_throws thr c then Running else Thrown)
   \<and> (fst (stop thr w) = Running \<longrightarrow> calls (snd (stop thr w)) = calls w @ releases_due w)
   \<and> (fst (stop thr w) = Thrown \<longrightarrow>
        strict_prefix (calls (snd (stop thr w))) (calls w @ releases_due w)
        \<and> audioBufferRef (snd (stop thr w)) = audioBufferRef w)
   \<and> ((\<forall>s. \<not> thr s) \<longrightarrow> fst (stop thr w) = Running)"
proof (intro conjI impI)
  show "calls (snd (stop thr w))
     = calls w @ takeWhile (\<lambda>c. \<not> release_throws thr c) (releases_due w)"
    using stop_exact [of thr w] by (rule conjunct1)
  show "fst (stop thr w)
       = (if \<forall>c \<in> set (releases_due w). \<not> release_throws thr c then Running else Thrown)"
    using stop_exact [of thr w] by (rule conjunct2)
  show "calls (snd (stop thr w)) = calls w @ releases_due w" if "fst (stop thr w) = Running"
    using that stop_logs [of thr w] by blast
  show "strict_prefix (calls (snd (stop thr w))) (calls w @ releases_due w)"
    if "fst (stop thr w) = Thrown"
    using that stop_logs [of thr w] by blast
  show "audioBufferRef (snd (stop thr w)) = audioBufferRef w" if "fst (stop thr w) = Thrown"
    using that by (rule stop_Thrown_audioBufferRef)
  show "fst (stop thr w) = Running" if "\<forall>s. \<not> thr s"
    using that by (simp add: stop_no_throw)
qed

theorem stop_release_steps_witness:
  "fst (stop camera_stop_throws (start env0 (mounted canvas0))) = Thrown
   \<and> calls (snd (stop camera_stop_throws (start env0 (mounted canvas0))))
       = calls (start env0 (mounted canvas0)) @ [CancelAnimationFrame 1]
   \<and> fst (stop context_close_throws (start env0 (mounted canvas0))) = Thrown
   \<and> calls (snd (stop context_close_throws (start env0 (mounted canvas0))))
       = calls (start env0 (mounted canvas0))
           @ [CancelAnimationFrame 1, CameraStop, PoseClose, TrackStop 0, TrackStop 1,
              AnalyserDisconnect]
   \<and> fst (stop no_throw (start env0 (mounted canvas0))) = Running
   \<and> calls (snd (stop no_throw (start env0 (mounted canvas0))))
       = calls (start env0 (mounted canvas0))
           @ [CancelAnimationFrame 1, CameraStop, PoseClose, TrackStop 0, TrackStop 1,
              AnalyserDisconnect, AudioContextClose]"
proof -
  note due = releases_due_started0
  have a: "calls (snd (stop camera_stop_throws (start env0 (mounted canvas0))))
       = calls (start env0 (mounted canvas0)) @ [CancelAnimationFrame 1]"
    "fst (stop camera_stop_throws (start env0 (mounted canvas0))) = Thrown"
    using stop_release_steps [of camera_stop_throws "start env0 (mounted canvas0)"]
    unfolding due by (simp_all add: camera_stop_throws_def)
  have b: "calls (snd (stop context_close_throws (start env0 (mounted canvas0))))
       = calls (start env0 (mounted canvas0))
           @ [CancelAnimationFrame 1, CameraStop, PoseClose, TrackStop 0, TrackStop 1,
              AnalyserDisconnect]"
    "fst (stop context_close_throws (start env0 (mounted canvas0))) = Thrown"
    using stop_release_steps [of context_close_throws "start env0 (mounted canvas0)"]
    unfolding due by (simp_all add: context_close_throws_def)
  have c: "calls (snd (stop no_throw (start env0 (mounted canvas0))))
       = calls (start env0 (mounted canvas0))
           @ [CancelAnimationFrame 1, CameraStop, PoseClose, TrackStop 0, TrackStop 1,
              AnalyserDisconnect, AudioContextClose]"
    "fst (stop no_throw (start env0 (mounted canvas0))) = Running"
    using stop_release_steps [of no_throw "start env0 (mounted canvas0)"]
    unfolding due by (simp_all add: no_throw_def)
  from a b c show ?thesis by blast
qed

end
